theory Spec2Isabelle
  imports Main "HOL-Library.Word"
begin

unbundle bit_operations_syntax

section \<open>Memory\<close>

text \<open>
  Both allocators are C programs that work on raw pointers into a byte region handed to
  \<^verbatim>\<open>myinit\<close>. Neither program checks a pointer before it dereferences it, so the model
  gives them what the machine gives them: a flat 64-bit address space of bytes in which
  every load and store is defined. A pointer is a 64-bit word, the null pointer is 0, and
  pointer arithmetic wraps. An \<^verbatim>\<open>unsigned long\<close>, a \<^verbatim>\<open>size_t\<close> and a
  \<^verbatim>\<open>void *\<close> are 8 bytes, stored little-endian.
\<close>

type_synonym addr = "64 word"
type_synonym mem = "addr \<Rightarrow> 8 word"

definition load64 :: "mem \<Rightarrow> addr \<Rightarrow> 64 word" where
  "load64 m a =
     ucast (m a) OR push_bit 8 (ucast (m (a + 1))) OR push_bit 16 (ucast (m (a + 2)))
     OR push_bit 24 (ucast (m (a + 3))) OR push_bit 32 (ucast (m (a + 4)))
     OR push_bit 40 (ucast (m (a + 5))) OR push_bit 48 (ucast (m (a + 6)))
     OR push_bit 56 (ucast (m (a + 7)))"

definition store64 :: "mem \<Rightarrow> addr \<Rightarrow> 64 word \<Rightarrow> mem" where
  "store64 m a v = (\<lambda>x. if x - a < 8 then ucast (drop_bit (8 * unat (x - a)) v) else m x)"

text \<open>
  \<^verbatim>\<open>memcpy(dst, src, n)\<close>: the \<open>n\<close> bytes at \<open>dst\<close> become the bytes that were at
  \<open>src\<close> before the call.
\<close>

definition memcpy :: "mem \<Rightarrow> addr \<Rightarrow> addr \<Rightarrow> 64 word \<Rightarrow> mem" where
  "memcpy m dst src n = (\<lambda>x. if x - dst < n then m (src + (x - dst)) else m x)"

section \<open>Constants and the header codec shared by both programs\<close>

definition WIDTH :: "64 word" where "WIDTH = 8"
definition ALLOC :: "64 word" where "ALLOC = 1"
definition FREE :: "64 word" where "FREE = 0"

text \<open>\<^verbatim>\<open>sizeof(header)\<close> of the explicit program: three 8-byte fields.\<close>

definition sizeof_header :: "64 word" where "sizeof_header = 24"

definition get_hdr :: "addr \<Rightarrow> addr" where
  "get_hdr block_ptr = block_ptr - WIDTH"

definition get_ul :: "mem \<Rightarrow> addr \<Rightarrow> 64 word" where
  "get_ul m hdr_adr = load64 m hdr_adr"

definition get_block_size :: "mem \<Rightarrow> addr \<Rightarrow> 64 word" where
  "get_block_size m block_ptr = drop_bit 2 (get_ul m (get_hdr block_ptr))"

text \<open>The C function returns the masked word as an \<^verbatim>\<open>int\<close>, 0 or 1.\<close>

definition check_alloc :: "mem \<Rightarrow> addr \<Rightarrow> 64 word" where
  "check_alloc m block_ptr = get_ul m (get_hdr block_ptr) AND 1"

definition set_hdr_size :: "mem \<Rightarrow> addr \<Rightarrow> 64 word \<Rightarrow> mem" where
  "set_hdr_size m block_ptr upd_size =
     store64 m (get_hdr block_ptr) ((get_ul m (get_hdr block_ptr) AND 3) OR push_bit 2 upd_size)"

definition set_hdr_status :: "mem \<Rightarrow> addr \<Rightarrow> 64 word \<Rightarrow> mem" where
  "set_hdr_status m block_ptr status =
     store64 m (get_hdr block_ptr) ((get_ul m (get_hdr block_ptr) AND NOT 3) OR status)"

section \<open>The implicit allocator\<close>

record imp_state =
  heap_imp :: mem
  segment_start_imp :: addr
  segment_end_imp :: addr
  segment_size_imp :: "64 word"
  nblocks_imp :: "64 word"
  nused_imp :: "32 word"
  bytes_used_imp :: "64 word"
  start_block_imp :: addr

definition get_next_block_imp :: "imp_state \<Rightarrow> addr \<Rightarrow> addr" where
  "get_next_block_imp s block_ptr =
     (let next_block = block_ptr + get_block_size (heap_imp s) block_ptr + WIDTH
      in if next_block < segment_end_imp s then next_block else 0)"

definition round_up_imp :: "64 word \<Rightarrow> 64 word" where
  "round_up_imp req_size = (req_size + WIDTH - 1) AND NOT (WIDTH - 1)"

text \<open>
  The loop of \<^verbatim>\<open>first_fit\<close> runs \<open>nblocks\<close> times (its \<^verbatim>\<open>int\<close> counter is compared
  with the \<^verbatim>\<open>size_t\<close> bound); the last argument is the number of rounds left.
\<close>

fun first_fit_loop_imp :: "imp_state \<Rightarrow> 64 word \<Rightarrow> addr \<Rightarrow> nat \<Rightarrow> addr" where
  "first_fit_loop_imp s req_size curr_block 0 = 0"
| "first_fit_loop_imp s req_size curr_block (Suc n) =
     (if req_size \<le> get_block_size (heap_imp s) curr_block
         \<and> check_alloc (heap_imp s) curr_block = 0
      then curr_block
      else first_fit_loop_imp s req_size (get_next_block_imp s curr_block) n)"

definition first_fit_imp :: "imp_state \<Rightarrow> 64 word \<Rightarrow> addr" where
  "first_fit_imp s req_size =
     first_fit_loop_imp s req_size (start_block_imp s) (unat (nblocks_imp s))"

definition myinit_imp :: "imp_state \<Rightarrow> addr \<Rightarrow> 64 word \<Rightarrow> imp_state \<times> bool" where
  "myinit_imp s heap_start heap_size =
     (s\<lparr>segment_start_imp := heap_start,
        segment_end_imp := heap_start + heap_size,
        segment_size_imp := heap_size,
        start_block_imp := heap_start + WIDTH,
        heap_imp := store64 (heap_imp s) heap_start (push_bit 2 (heap_size - WIDTH)),
        nblocks_imp := 1,
        nused_imp := 0,
        bytes_used_imp := 0\<rparr>, True)"

definition mymalloc_imp :: "imp_state \<Rightarrow> 64 word \<Rightarrow> imp_state \<times> addr" where
  "mymalloc_imp s req_size0 =
     (if req_size0 \<le> 0 then (s, 0)
      else
        let req_size = round_up_imp req_size0;
            alloc_block = first_fit_imp s req_size
        in if alloc_block \<noteq> 0 then
             let size_diff = get_block_size (heap_imp s) alloc_block - req_size;
                 m1 = set_hdr_size (heap_imp s) alloc_block req_size;
                 m2 = set_hdr_status m1 alloc_block ALLOC;
                 s2 = s\<lparr>heap_imp := m2\<rparr>;
                 s3 = (if 0 < size_diff then
                         let next_block = get_next_block_imp s2 alloc_block;
                             m3 = set_hdr_size m2 next_block (size_diff - WIDTH);
                             m4 = set_hdr_status m3 next_block FREE
                         in s2\<lparr>heap_imp := m4, nblocks_imp := nblocks_imp s2 + 1\<rparr>
                       else s2)
             in (s3\<lparr>nused_imp := nused_imp s3 + 1,
                    bytes_used_imp := bytes_used_imp s3 + (req_size + WIDTH)\<rparr>, alloc_block)
           else (s, 0))"

definition myfree_imp :: "imp_state \<Rightarrow> addr \<Rightarrow> imp_state" where
  "myfree_imp s ptr =
     (if ptr \<noteq> 0 then
        let m1 = set_hdr_status (heap_imp s) ptr FREE
        in s\<lparr>nused_imp := nused_imp s - 1,
             heap_imp := m1,
             bytes_used_imp := bytes_used_imp s - (get_block_size m1 ptr + WIDTH)\<rparr>
      else s)"

definition myrealloc_imp :: "imp_state \<Rightarrow> addr \<Rightarrow> 64 word \<Rightarrow> imp_state \<times> addr" where
  "myrealloc_imp s old_ptr new_size =
     (if old_ptr = 0 then mymalloc_imp s new_size
      else if new_size = 0 then (myfree_imp s old_ptr, 0)
      else
        let (s1, new_ptr) = mymalloc_imp s new_size;
            s2 = s1\<lparr>heap_imp := memcpy (heap_imp s1) new_ptr old_ptr new_size\<rparr>
        in (myfree_imp s2 old_ptr, new_ptr))"

section \<open>The explicit allocator\<close>

record exp_state =
  heap_exp :: mem
  segment_start_exp :: addr
  segment_size_exp :: "64 word"
  start_block_exp :: addr
  nblocks_exp :: "64 word"
  nused_exp :: "64 word"
  last_free_block_exp :: addr

text \<open>
  The \<^verbatim>\<open>header\<close> struct lies over the 8 bytes before a payload and the first 16 bytes
  of the payload: \<^verbatim>\<open>block_size\<close> at offset 0, \<^verbatim>\<open>prev_ptr\<close> at 8, \<^verbatim>\<open>next_ptr\<close> at 16.
\<close>

definition create_hdr :: "mem \<Rightarrow> addr \<Rightarrow> 64 word \<Rightarrow> addr \<Rightarrow> addr \<Rightarrow> mem" where
  "create_hdr m loc sz prev nxt =
     store64 (store64 (store64 m loc (push_bit 2 sz)) (loc + 8) prev) (loc + 16) nxt"

definition get_next_block_exp :: "mem \<Rightarrow> addr \<Rightarrow> addr" where
  "get_next_block_exp m block_ptr = block_ptr + get_block_size m block_ptr + WIDTH"

definition get_next_free :: "mem \<Rightarrow> addr \<Rightarrow> addr" where
  "get_next_free m block_ptr = (if block_ptr \<noteq> 0 then load64 m (get_hdr block_ptr + 16) else 0)"

definition get_prev_free :: "mem \<Rightarrow> addr \<Rightarrow> addr" where
  "get_prev_free m block_ptr = (if block_ptr \<noteq> 0 then load64 m (get_hdr block_ptr + 8) else 0)"

definition round_up_exp :: "64 word \<Rightarrow> 64 word" where
  "round_up_exp req_size =
     (let rounded_size = (req_size + WIDTH - 1) AND NOT (WIDTH - 1)
      in if rounded_size < 16 then 16 else rounded_size)"

definition set_prev_ptr :: "mem \<Rightarrow> addr \<Rightarrow> addr \<Rightarrow> mem" where
  "set_prev_ptr m block_ptr prev =
     (if block_ptr \<noteq> 0 then store64 m (get_hdr block_ptr + 8) prev else m)"

definition set_next_ptr :: "mem \<Rightarrow> addr \<Rightarrow> addr \<Rightarrow> mem" where
  "set_next_ptr m block_ptr nxt =
     (if block_ptr \<noteq> 0 then store64 m (get_hdr block_ptr + 16) nxt else m)"

definition upd_last_free_block :: "exp_state \<Rightarrow> addr \<Rightarrow> addr \<Rightarrow> exp_state" where
  "upd_last_free_block s cmp_block new_block =
     (if last_free_block_exp s = cmp_block then s\<lparr>last_free_block_exp := new_block\<rparr> else s)"

text \<open>
  The loop of \<^verbatim>\<open>first_fit\<close> runs \<open>nblocks - nused\<close> times (unsigned subtraction) and,
  unlike the implicit one, returns the block it stands on when the rounds are used up.
\<close>

fun first_fit_loop_exp :: "mem \<Rightarrow> 64 word \<Rightarrow> addr \<Rightarrow> nat \<Rightarrow> addr" where
  "first_fit_loop_exp m req_size curr_block 0 = curr_block"
| "first_fit_loop_exp m req_size curr_block (Suc n) =
     (if req_size \<le> get_block_size m curr_block \<and> check_alloc m curr_block = 0
      then curr_block
      else first_fit_loop_exp m req_size (get_prev_free m curr_block) n)"

definition first_fit_exp :: "exp_state \<Rightarrow> 64 word \<Rightarrow> addr" where
  "first_fit_exp s req_size =
     first_fit_loop_exp (heap_exp s) req_size (last_free_block_exp s)
       (unat (nblocks_exp s - nused_exp s))"

definition create_partial_fb :: "exp_state \<Rightarrow> addr \<Rightarrow> addr \<Rightarrow> 64 word \<Rightarrow> exp_state" where
  "create_partial_fb s orig_block new_fb fb_size =
     (let m = heap_exp s;
          new_free_hdr = get_hdr new_fb;
          orig_prev = get_prev_free m orig_block;
          orig_next = get_next_free m orig_block;
          m1 = set_next_ptr m orig_prev new_fb;
          m2 = set_prev_ptr m1 orig_next new_fb;
          m3 = create_hdr m2 new_free_hdr fb_size orig_prev orig_next
      in upd_last_free_block (s\<lparr>heap_exp := m3\<rparr>) orig_block new_fb)"

definition change_to_free :: "exp_state \<Rightarrow> addr \<Rightarrow> exp_state" where
  "change_to_free s new_free =
     (let m1 = set_hdr_status (heap_exp s) new_free FREE;
          m2 = set_next_ptr m1 (last_free_block_exp s) new_free;
          m3 = set_prev_ptr m2 new_free (last_free_block_exp s);
          m4 = set_next_ptr m3 new_free 0
      in s\<lparr>heap_exp := m4, last_free_block_exp := new_free\<rparr>)"

definition coalesce :: "exp_state \<Rightarrow> addr \<Rightarrow> exp_state" where
  "coalesce s new_free =
     (let m = heap_exp s;
          neighbor = get_next_block_exp m new_free;
          neighbor_prev = get_prev_free m neighbor;
          neighbor_next = get_next_free m neighbor;
          m1 = set_hdr_status m new_free FREE;
          m2 = set_hdr_size m1 new_free
                 (get_block_size m1 new_free + get_block_size m1 neighbor + WIDTH);
          m3 = set_prev_ptr m2 new_free neighbor_prev;
          m4 = set_next_ptr m3 new_free neighbor_next;
          m5 = set_prev_ptr m4 neighbor_next new_free;
          m6 = set_next_ptr m5 neighbor_prev new_free
      in upd_last_free_block (s\<lparr>heap_exp := m6\<rparr>) neighbor new_free)"

text \<open>
  \<^verbatim>\<open>right_search\<close> is a \<^verbatim>\<open>while\<close> loop with no bound of its own, so it is a partial
  function: \<open>None\<close> is the loop that never ends. The arguments are the loop variables
  \<^verbatim>\<open>r_neighbor\<close>, \<^verbatim>\<open>total_space\<close> and \<^verbatim>\<open>block_count\<close>.
\<close>

partial_function (option) right_search_loop ::
  "mem \<Rightarrow> 64 word \<Rightarrow> addr \<Rightarrow> 64 word \<Rightarrow> nat \<Rightarrow> nat option" where
  "right_search_loop m add_size r_neighbor total_space block_count =
     (if total_space < add_size then
        (if check_alloc m r_neighbor \<noteq> 0 then Some 0
         else right_search_loop m add_size (get_next_block_exp m r_neighbor)
                (total_space + (get_block_size m r_neighbor + WIDTH)) (block_count + 1))
      else Some block_count)"

declare right_search_loop.simps [code]

definition right_search :: "mem \<Rightarrow> addr \<Rightarrow> 64 word \<Rightarrow> nat option" where
  "right_search m r_neighbor add_size = right_search_loop m add_size r_neighbor 0 0"

text \<open>
  \<^verbatim>\<open>fix_neighbors\<close>: the fourth argument counts the rounds left, so the round with
  \<^verbatim>\<open>i == num_blocks\<close> is the one with a single round left. The updated \<^verbatim>\<open>*new_size\<close> is
  returned with the state.
\<close>

fun fix_neighbors :: "exp_state \<Rightarrow> addr \<Rightarrow> 64 word \<Rightarrow> nat \<Rightarrow> 64 word \<Rightarrow> exp_state \<times> 64 word" where
  "fix_neighbors s neighbor new_size 0 space_needed = (s, new_size)"
| "fix_neighbors s neighbor new_size (Suc k) space_needed =
     (let m = heap_exp s;
          remaining_space = get_block_size m neighbor + WIDTH - space_needed
      in if k = 0 \<and> sizeof_header \<le> remaining_space then
           (create_partial_fb s neighbor (neighbor + space_needed)
              (get_block_size m neighbor - space_needed), new_size)
         else
           let new_size1 = (if k = 0 then new_size + remaining_space else new_size);
               neighbor_prev = get_prev_free m neighbor;
               m1 = set_next_ptr m neighbor_prev (get_next_free m neighbor);
               m2 = set_prev_ptr m1 (get_next_free m1 neighbor) (get_prev_free m1 neighbor);
               s1 = upd_last_free_block (s\<lparr>heap_exp := m2\<rparr>) neighbor neighbor_prev;
               space_needed1 = space_needed - (get_block_size m2 neighbor + WIDTH);
               neighbor1 = get_next_block_exp m2 neighbor
           in fix_neighbors (s1\<lparr>nblocks_exp := nblocks_exp s1 - 1\<rparr>)
                neighbor1 new_size1 k space_needed1)"

definition myinit_exp :: "exp_state \<Rightarrow> addr \<Rightarrow> 64 word \<Rightarrow> exp_state \<times> bool" where
  "myinit_exp s heap_start heap_size =
     (s\<lparr>segment_start_exp := heap_start,
        segment_size_exp := heap_size,
        last_free_block_exp := heap_start + WIDTH,
        start_block_exp := heap_start + WIDTH,
        heap_exp := create_hdr (heap_exp s) heap_start (heap_size - WIDTH) 0 0,
        nblocks_exp := 1,
        nused_exp := 0\<rparr>, True)"

definition mymalloc_exp :: "exp_state \<Rightarrow> 64 word \<Rightarrow> exp_state \<times> addr" where
  "mymalloc_exp s req_size0 =
     (if req_size0 \<le> 0 then (s, 0)
      else
        let req_size = round_up_exp req_size0;
            alloc_block = first_fit_exp s req_size
        in if alloc_block \<noteq> 0 then
             let m = heap_exp s;
                 size_diff = get_block_size m alloc_block - req_size;
                 (s1, req_size1) =
                   (if size_diff < sizeof_header then
                      (if alloc_block = last_free_block_exp s then
                         let lfb = get_prev_free m (last_free_block_exp s)
                         in s\<lparr>last_free_block_exp := lfb, heap_exp := set_next_ptr m lfb 0\<rparr>
                       else
                         let m1 = set_prev_ptr m (get_next_free m alloc_block)
                                    (get_prev_free m alloc_block);
                             m2 = set_next_ptr m1 (get_prev_free m1 alloc_block)
                                    (get_next_free m1 alloc_block)
                         in s\<lparr>heap_exp := m2\<rparr>,
                       size_diff + req_size)
                    else
                      let new_partial_fb = alloc_block + req_size + WIDTH;
                          s' = create_partial_fb s alloc_block new_partial_fb (size_diff - WIDTH)
                      in (s'\<lparr>nblocks_exp := nblocks_exp s' + 1\<rparr>, req_size));
                 m3 = set_hdr_size (heap_exp s1) alloc_block req_size1;
                 m4 = set_hdr_status m3 alloc_block ALLOC
             in (s1\<lparr>heap_exp := m4, nused_exp := nused_exp s1 + 1\<rparr>, alloc_block)
           else (s, 0))"

definition myfree_exp :: "exp_state \<Rightarrow> addr \<Rightarrow> exp_state" where
  "myfree_exp s ptr =
     (if ptr \<noteq> 0 then
        let s1 = (if check_alloc (heap_exp s) (get_next_block_exp (heap_exp s) ptr) = 0 then
                    let s' = coalesce s ptr in s'\<lparr>nblocks_exp := nblocks_exp s' - 1\<rparr>
                  else change_to_free s ptr)
        in s1\<lparr>nused_exp := nused_exp s1 - 1\<rparr>
      else s)"

text \<open>
  \<^verbatim>\<open>myrealloc\<close> returns \<open>None\<close> when its call of \<^verbatim>\<open>right_search\<close> does not return.
\<close>

definition myrealloc_exp :: "exp_state \<Rightarrow> addr \<Rightarrow> 64 word \<Rightarrow> (exp_state \<times> addr) option" where
  "myrealloc_exp s old_ptr new_size0 =
     (if old_ptr = 0 then Some (mymalloc_exp s new_size0)
      else if new_size0 = 0 then Some (myfree_exp s old_ptr, 0)
      else
        let curr_size = get_block_size (heap_exp s) old_ptr;
            new_size = round_up_exp new_size0
        in if new_size \<le> curr_size then
             let size_diff = curr_size - new_size
             in if sizeof_header \<le> size_diff then
                  let new_free_start = old_ptr + new_size + WIDTH;
                      s1 = s\<lparr>heap_exp := set_hdr_size (heap_exp s) old_ptr new_size\<rparr>;
                      s2 = change_to_free s1 new_free_start;
                      s3 = s2\<lparr>heap_exp :=
                                set_hdr_size (heap_exp s2) new_free_start (size_diff - WIDTH)\<rparr>
                  in Some (s3\<lparr>nblocks_exp := nblocks_exp s3 + 1\<rparr>, old_ptr)
                else Some (s, old_ptr)
           else
             let size_diff = new_size - curr_size
             in case right_search (heap_exp s) (old_ptr + curr_size + WIDTH) size_diff of
                  None \<Rightarrow> None
                | Some r_free_blocks \<Rightarrow>
                    if r_free_blocks \<noteq> 0 then
                      let (s1, new_size1) =
                            fix_neighbors s (get_next_block_exp (heap_exp s) old_ptr)
                              new_size r_free_blocks size_diff
                      in Some (s1\<lparr>heap_exp := set_hdr_size (heap_exp s1) old_ptr new_size1\<rparr>,
                               old_ptr)
                    else
                      let (s1, new_ptr) = mymalloc_exp s new_size;
                          s2 = s1\<lparr>heap_exp := memcpy (heap_exp s1) new_ptr old_ptr new_size\<rparr>
                      in Some (myfree_exp s2 old_ptr, new_ptr))"

subsection \<open>The heap validator of the explicit allocator\<close>

text \<open>The two loops of \<^verbatim>\<open>validate_heap\<close>: the block walk runs \<^verbatim>\<open>nblocks\<close> rounds and sums
  the used and the free bytes; the free-list walk follows the \<^verbatim>\<open>prev\<close> links from
  \<^verbatim>\<open>last_free_block\<close> until it meets a null pointer, so it may not return.\<close>

fun validate_walk ::
  "mem \<Rightarrow> addr \<Rightarrow> nat \<Rightarrow> 64 word \<Rightarrow> 64 word \<Rightarrow> 32 word \<Rightarrow> 64 word \<times> 64 word \<times> 32 word" where
  "validate_walk m curr_block 0 used_bytes free_bytes free_count =
     (used_bytes, free_bytes, free_count)"
| "validate_walk m curr_block (Suc n) used_bytes free_bytes free_count =
     (let block_width_size = get_block_size m curr_block + WIDTH
      in if check_alloc m curr_block \<noteq> 0 then
           validate_walk m (get_next_block_exp m curr_block) n
             (used_bytes + block_width_size) free_bytes free_count
         else
           validate_walk m (get_next_block_exp m curr_block) n
             used_bytes (free_bytes + block_width_size) (free_count + 1))"

partial_function (option) validate_free_list :: "mem \<Rightarrow> addr \<Rightarrow> 32 word \<Rightarrow> bool option" where
  "validate_free_list m curr_free_block n_free =
     (if curr_free_block \<noteq> 0 then
        (if check_alloc m curr_free_block \<noteq> 0 then Some False
         else if get_prev_free m curr_free_block \<noteq> 0
                 \<and> get_next_free m (get_prev_free m curr_free_block) \<noteq> curr_free_block
         then Some False
         else validate_free_list m (get_prev_free m curr_free_block) (n_free - 1))
      else Some (n_free = 0))"

declare validate_free_list.simps [code]

definition validate_heap_exp :: "exp_state \<Rightarrow> bool option" where
  "validate_heap_exp s =
     (let (used_bytes, free_bytes, free_count) =
            validate_walk (heap_exp s) (start_block_exp s) (unat (nblocks_exp s)) 0 0 0;
          n_free = (ucast (nblocks_exp s - nused_exp s) :: 32 word)
      in if used_bytes + free_bytes \<noteq> segment_size_exp s then Some False
         else if free_count \<noteq> n_free then Some False
         else validate_free_list (heap_exp s) (last_free_block_exp s) n_free)"

section \<open>Notions used by the properties\<close>

text \<open>Two 8-byte cells that do not overlap: each start is at least 8 past the other, going round.\<close>

definition apart :: "addr \<Rightarrow> addr \<Rightarrow> bool" where
  "apart a b \<longleftrightarrow> 8 \<le> a - b \<and> 8 \<le> b - a"

text \<open>
  The state of a program before its first call: C zero-initialises the \<^verbatim>\<open>static\<close>
  variables. The concrete scenarios below run on a region at address \<open>0x1000\<close> of a
  memory that holds zero bytes everywhere.
\<close>

definition zero_mem :: mem where
  "zero_mem = (\<lambda>_. 0)"

definition imp_boot :: imp_state where
  "imp_boot = \<lparr>heap_imp = zero_mem, segment_start_imp = 0, segment_end_imp = 0,
     segment_size_imp = 0, nblocks_imp = 0, nused_imp = 0, bytes_used_imp = 0,
     start_block_imp = 0\<rparr>"

definition exp_boot :: exp_state where
  "exp_boot = \<lparr>heap_exp = zero_mem, segment_start_exp = 0, segment_size_exp = 0,
     start_block_exp = 0, nblocks_exp = 0, nused_exp = 0, last_free_block_exp = 0\<rparr>"

text \<open>Both programs after \<^verbatim>\<open>myinit\<close> on a 4096-byte region at \<open>0x1000\<close>.\<close>

definition imp_fresh :: imp_state where
  "imp_fresh = fst (myinit_imp imp_boot 0x1000 4096)"

definition exp_fresh :: exp_state where
  "exp_fresh = fst (myinit_exp exp_boot 0x1000 4096)"

text \<open>An address written as base plus offset, so that offsets from one base can be compared.\<close>

definition off :: "addr \<Rightarrow> 64 word \<Rightarrow> addr" where
  "off b k = b + k"

text \<open>The explicit program after \<^verbatim>\<open>p = mymalloc(100)\<close> and then \<^verbatim>\<open>myrealloc(p, 32)\<close>.\<close>

definition exp_m100 :: "exp_state \<times> addr" where
  "exp_m100 = mymalloc_exp exp_fresh 100"

definition exp_r32 :: "(exp_state \<times> addr) option" where
  "exp_r32 = myrealloc_exp (fst exp_m100) (snd exp_m100) 32"

text \<open>The implicit program after \<^verbatim>\<open>myinit\<close> on a 40-byte region at \<open>0x1000\<close>.\<close>

definition imp_small :: imp_state where
  "imp_small = fst (myinit_imp imp_boot 0x1000 40)"

text \<open>The implicit program after \<^verbatim>\<open>mymalloc(16)\<close> on the 4096-byte region.\<close>

definition imp_m16 :: "imp_state \<times> addr" where
  "imp_m16 = mymalloc_imp imp_fresh 16"

text \<open>
  The cells of the \<^verbatim>\<open>header\<close> struct that hold the links of a free block: \<^verbatim>\<open>prev_ptr\<close>
  is the first 8 bytes of the payload, \<^verbatim>\<open>next_ptr\<close> the next 8.
\<close>

definition prev_cell :: "addr \<Rightarrow> addr" where
  "prev_cell block_ptr = get_hdr block_ptr + 8"

definition next_cell :: "addr \<Rightarrow> addr" where
  "next_cell block_ptr = get_hdr block_ptr + 16"

text \<open>
  The blocks of the heap in address order: \<open>walk m p n\<close> is the block at \<open>p\<close> followed by its
  \<open>n - 1\<close> successors, each starting 8 bytes after the end of the payload before it. The
  explicit program has \<open>nblocks\<close> of them, starting at \<open>start_block\<close>.
\<close>

fun walk :: "mem \<Rightarrow> addr \<Rightarrow> nat \<Rightarrow> addr list" where
  "walk m p 0 = []"
| "walk m p (Suc n) = p # walk m (get_next_block_exp m p) n"

definition heap_blocks_exp :: "exp_state \<Rightarrow> addr list" where
  "heap_blocks_exp s = walk (heap_exp s) (start_block_exp s) (unat (nblocks_exp s))"

text \<open>
  The right-coalescing invariant: no block of the heap is free together with the block
  that follows it.
\<close>

fun adjacent_free :: "mem \<Rightarrow> addr list \<Rightarrow> bool" where
  "adjacent_free m (p # q # ps) =
     (check_alloc m p = 0 \<and> check_alloc m q = 0 \<or> adjacent_free m (q # ps))"
| "adjacent_free m ps = False"

definition right_coalesced :: "exp_state \<Rightarrow> bool" where
  "right_coalesced s \<longleftrightarrow> \<not> adjacent_free (heap_exp s) (heap_blocks_exp s)"

text \<open>
  What \<^verbatim>\<open>myfree(p)\<close> needs from the free list it updates: the link cells it writes in
  other blocks (of the list tail when the right neighbour of \<open>p\<close> is allocated, of the list
  neighbours of that right neighbour when it is free) overlap neither the header of \<open>p\<close>
  nor the header of the block that follows \<open>p\<close> after the call. In a heap whose free list
  holds free blocks only, each with a payload of at least 16 bytes, this is the case.
\<close>

definition free_writes_clear :: "exp_state \<Rightarrow> addr \<Rightarrow> bool" where
  "free_writes_clear s p \<longleftrightarrow>
     (let m = heap_exp s;
          q = get_next_block_exp m p;
          r = get_next_block_exp m q
      in if check_alloc m q = 0 then
           (get_next_free m q = 0
            \<or> apart (prev_cell (get_next_free m q)) (get_hdr p)
              \<and> apart (prev_cell (get_next_free m q)) (get_hdr r))
           \<and> (get_prev_free m q = 0
              \<or> apart (next_cell (get_prev_free m q)) (get_hdr p)
                \<and> apart (next_cell (get_prev_free m q)) (get_hdr r))
         else
           last_free_block_exp s = 0
           \<or> apart (next_cell (last_free_block_exp s)) (get_hdr p)
             \<and> apart (next_cell (last_free_block_exp s)) (get_hdr q))"

text \<open>
  Scenarios of the explicit program on the 4096-byte region: \<^verbatim>\<open>a = mymalloc(24)\<close>,
  \<^verbatim>\<open>b = mymalloc(32)\<close>, then either \<^verbatim>\<open>myfree(a); myfree(b)\<close>, or
  \<^verbatim>\<open>c = mymalloc(16); myfree(b); myfree(a)\<close>.
\<close>

definition exp_a24 :: "exp_state \<times> addr" where
  "exp_a24 = mymalloc_exp exp_fresh 24"

definition exp_b32 :: "exp_state \<times> addr" where
  "exp_b32 = mymalloc_exp (fst exp_a24) 32"

definition exp_fa :: exp_state where
  "exp_fa = myfree_exp (fst exp_b32) (snd exp_a24)"

definition exp_fb :: exp_state where
  "exp_fb = myfree_exp exp_fa (snd exp_b32)"

definition exp_c16 :: "exp_state \<times> addr" where
  "exp_c16 = mymalloc_exp (fst exp_b32) 16"

definition exp_c_fb :: exp_state where
  "exp_c_fb = myfree_exp (fst exp_c16) (snd exp_b32)"

definition exp_c_fa :: exp_state where
  "exp_c_fa = myfree_exp exp_c_fb (snd exp_a24)"

text \<open>The blocks of the region in address order: the walk starts at the first block and stops
  at the first block whose header is not below the end of the region. The blocks tile the region
  when their sizes, each with its 8-byte header, add up to the size of the region. The free list
  is the chain of \<^verbatim>\<open>prev\<close> links from \<^verbatim>\<open>last_free_block\<close>; it is faithful when it has no
  repetition, holds the free blocks of the region and nothing else, and every \<^verbatim>\<open>prev\<close> link
  is answered by the \<^verbatim>\<open>next\<close> link of its target.\<close>

fun region_walk :: "mem \<Rightarrow> addr \<Rightarrow> addr \<Rightarrow> nat \<Rightarrow> addr list" where
  "region_walk m region_end p 0 = []"
| "region_walk m region_end p (Suc n) =
     (if get_hdr p < region_end then p # region_walk m region_end (get_next_block_exp m p) n
      else [])"

definition region_blocks_exp :: "exp_state \<Rightarrow> addr list" where
  "region_blocks_exp s =
     region_walk (heap_exp s) (segment_start_exp s + segment_size_exp s) (start_block_exp s)
       (unat (segment_size_exp s))"

definition tiling_exp :: "exp_state \<Rightarrow> bool" where
  "tiling_exp s \<longleftrightarrow>
     sum_list (map (\<lambda>p. 8 + unat (get_block_size (heap_exp s) p)) (region_blocks_exp s))
       = unat (segment_size_exp s)"

fun free_chain :: "mem \<Rightarrow> addr \<Rightarrow> nat \<Rightarrow> addr list" where
  "free_chain m p 0 = []"
| "free_chain m p (Suc n) = (if p = 0 then [] else p # free_chain m (get_prev_free m p) n)"

definition free_list_exp :: "exp_state \<Rightarrow> addr list" where
  "free_list_exp s =
     free_chain (heap_exp s) (last_free_block_exp s) (Suc (length (region_blocks_exp s)))"

definition free_list_faithful :: "exp_state \<Rightarrow> bool" where
  "free_list_faithful s \<longleftrightarrow>
     length (free_list_exp s) \<le> length (region_blocks_exp s)
     \<and> distinct (free_list_exp s)
     \<and> set (free_list_exp s)
         = set (filter (\<lambda>p. check_alloc (heap_exp s) p = 0) (region_blocks_exp s))
     \<and> list_all (\<lambda>x. get_prev_free (heap_exp s) x = 0
                      \<or> get_next_free (heap_exp s) (get_prev_free (heap_exp s) x) = x)
           (free_list_exp s)"

definition exp_full :: "exp_state \<times> addr" where
  "exp_full = mymalloc_exp exp_fresh 4088"

definition exp_lost :: exp_state where
  "exp_lost = myfree_exp (fst exp_full) (snd exp_full)"

text \<open>A run on a memory that is not zero after the region: the three words after the end of the
  region at \<open>0x1000 .. 0x2000\<close> hold 0, \<open>0x3001\<close> and \<open>0x1008\<close>, and the word at \<open>0x2FF9\<close> holds
  64, which read as a header says free with payload size 16. The run is \<^verbatim>\<open>myinit(0x1000, 4096)\<close>,
  \<^verbatim>\<open>a = mymalloc(16)\<close>, \<^verbatim>\<open>q = mymalloc(4064)\<close>, \<^verbatim>\<open>myfree(a)\<close>, \<^verbatim>\<open>myfree(q)\<close>, \<^verbatim>\<open>mymalloc(16)\<close>,
  \<^verbatim>\<open>mymalloc(4072)\<close>, \<^verbatim>\<open>mymalloc(16)\<close>.\<close>

definition past_end_mem :: mem where
  "past_end_mem = store64 (store64 (store64 zero_mem 0x2008 0x3001) 0x2010 0x1008) 0x2FF9 64"

definition exp_g0 :: exp_state where
  "exp_g0 = fst (myinit_exp (exp_boot\<lparr>heap_exp := past_end_mem\<rparr>) 0x1000 4096)"

definition exp_g1 :: "exp_state \<times> addr" where
  "exp_g1 = mymalloc_exp exp_g0 16"

definition exp_g2 :: "exp_state \<times> addr" where
  "exp_g2 = mymalloc_exp (fst exp_g1) 4064"

definition exp_g3 :: exp_state where
  "exp_g3 = myfree_exp (fst exp_g2) (snd exp_g1)"

definition exp_g4 :: exp_state where
  "exp_g4 = myfree_exp exp_g3 (snd exp_g2)"

definition exp_g5 :: "exp_state \<times> addr" where
  "exp_g5 = mymalloc_exp exp_g4 16"

definition exp_g6 :: "exp_state \<times> addr" where
  "exp_g6 = mymalloc_exp (fst exp_g5) 4072"

definition exp_g7 :: "exp_state \<times> addr" where
  "exp_g7 = mymalloc_exp (fst exp_g6) 16"

definition congruent8 :: "addr \<Rightarrow> addr \<Rightarrow> bool" where
  "congruent8 p base \<longleftrightarrow> unat p mod 8 = unat base mod 8"

section \<open>Loads and stores\<close>

lemma store64_at: "k < 8 \<Longrightarrow> store64 m a v (a + k) = ucast (drop_bit (8 * unat k) v)"
  by (simp add: store64_def)

lemma store64_other: "\<not> x - a < 8 \<Longrightarrow> store64 m a v x = m x"
  by (simp add: store64_def)

lemma byte_cases:
  assumes "n < (64::nat)"
  obtains "n < 8" | "8 \<le> n" "n < 16" | "16 \<le> n" "n < 24" | "24 \<le> n" "n < 32"
      | "32 \<le> n" "n < 40" | "40 \<le> n" "n < 48" | "48 \<le> n" "n < 56" | "56 \<le> n" "n < 64"
proof (cases "n < 32")
  case True
  show ?thesis
  proof (cases "n < 16")
    case a: True
    show ?thesis by (cases "n < 8") (use a that in auto)
  next
    case a: False
    show ?thesis by (cases "n < 24") (use a True that in auto)
  qed
next
  case False
  show ?thesis
  proof (cases "n < 48")
    case a: True
    show ?thesis by (cases "n < 40") (use a False that in auto)
  next
    case a: False
    show ?thesis by (cases "n < 56") (use a False assms that in auto)
  qed
qed

lemma bytes_cover:
  fixes v :: "64 word"
  assumes "n < 64"
  shows "(n < 8 \<and> bit v n \<or>
          8 \<le> n \<and> n - 8 < 64 \<and> n - 8 < 8 \<and> bit v (8 + (n - 8)) \<or>
          16 \<le> n \<and> n - 16 < 64 \<and> n - 16 < 8 \<and> bit v (16 + (n - 16)) \<or>
          24 \<le> n \<and> n - 24 < 64 \<and> n - 24 < 8 \<and> bit v (24 + (n - 24)) \<or>
          32 \<le> n \<and> n - 32 < 64 \<and> n - 32 < 8 \<and> bit v (32 + (n - 32)) \<or>
          40 \<le> n \<and> n - 40 < 64 \<and> n - 40 < 8 \<and> bit v (40 + (n - 40)) \<or>
          48 \<le> n \<and> n - 48 < 64 \<and> n - 48 < 8 \<and> bit v (48 + (n - 48)) \<or>
          56 \<le> n \<and> n - 56 < 64 \<and> n - 56 < 8 \<and> bit v (56 + (n - 56))) = bit v n"
  using assms by (cases n rule: byte_cases) auto

lemma load64_store64_same: "load64 (store64 m a v) a = v"
proof -
  have b: "store64 m a v a = ucast v" "store64 m a v (a + 1) = ucast (drop_bit 8 v)"
    "store64 m a v (a + 2) = ucast (drop_bit 16 v)" "store64 m a v (a + 3) = ucast (drop_bit 24 v)"
    "store64 m a v (a + 4) = ucast (drop_bit 32 v)" "store64 m a v (a + 5) = ucast (drop_bit 40 v)"
    "store64 m a v (a + 6) = ucast (drop_bit 48 v)" "store64 m a v (a + 7) = ucast (drop_bit 56 v)"
    using store64_at[of 0 m a v] by (simp_all add: store64_at)
  show ?thesis
    unfolding load64_def
    apply (simp add: b)
    apply (rule bit_eqI)
    apply (simp add: bit_simps bytes_cover)
    done
qed

lemma unat_uminus64: "d \<noteq> 0 \<Longrightarrow> unat (- d) = 2 ^ 64 - unat d" for d :: "64 word"
  using unat_sub_if_size[of 0 d] by (simp add: word_size unat_eq_zero)

lemma apart_sym: "apart a b \<Longrightarrow> apart b a"
  by (simp add: apart_def)

lemma apart_off:
  fixes a b k :: "64 word"
  assumes "apart a b" "k < 8"
  shows "\<not> a + k - b < 8"
proof -
  define d where "d = a - b"
  have e: "a + k - b = d + k" "b - a = - d" by (simp_all add: d_def)
  have d8: "8 \<le> unat d" using assms(1) by (simp add: apart_def d_def word_le_nat_alt)
  have "d \<noteq> 0" using d8 by auto
  then have "unat (- d) = 2 ^ 64 - unat d"
    by (rule unat_uminus64)
  moreover have "8 \<le> unat (- d)"
    using assms(1) unfolding apart_def e by (simp add: word_le_nat_alt)
  ultimately have "unat d + 8 \<le> 2 ^ 64"
    by simp
  moreover have "unat k < 8" using assms(2) by (simp add: word_less_nat_alt)
  ultimately have "unat (d + k) = unat d + unat k"
    by (simp add: unat_add_lem[THEN iffD1])
  then show ?thesis unfolding e using d8 by (simp add: word_less_nat_alt)
qed

lemma load64_store64_apart: "apart a b \<Longrightarrow> load64 (store64 m b v) a = load64 m a"
proof -
  assume 1: "apart a b"
  have r: "\<not> a + k - b < 8" if "k < 8" for k using apart_off[OF 1 that] .
  from r[of 0] r[of 1] r[of 2] r[of 3] r[of 4] r[of 5] r[of 6] r[of 7]
  show ?thesis
    unfolding load64_def by (simp add: store64_other)
qed

lemma load64_zero: "load64 zero_mem a = 0"
  by (simp add: load64_def zero_mem_def)

lemma store64_store64_same: "store64 (store64 m a v) a w = store64 m a w"
  by (rule ext) (simp add: store64_def)

lemma apart_consts:
  "apart a (a + 8)" "apart (a + 8) a" "apart a (a + 16)" "apart (a + 16) a"
  by (simp_all add: apart_def)

lemmas hdr_defs = WIDTH_def ALLOC_def FREE_def sizeof_header_def get_hdr_def get_ul_def
  get_block_size_def check_alloc_def set_hdr_size_def set_hdr_status_def

lemmas exp_defs = create_hdr_def get_next_block_exp_def get_next_free_def get_prev_free_def
  round_up_exp_def set_prev_ptr_def set_next_ptr_def upd_last_free_block_def first_fit_exp_def
  create_partial_fb_def change_to_free_def coalesce_def

lemmas imp_defs = get_next_block_imp_def round_up_imp_def first_fit_imp_def

lemmas mem_simps = load64_store64_same load64_store64_apart load64_zero apart_def
  store64_store64_same

section \<open>The size field\<close>

lemma size_roundtrip: "drop_bit 2 (push_bit 2 x) = take_bit 62 x" for x :: "64 word"
  by (rule bit_eqI) (auto simp: bit_simps)

lemma size_roundtrip_small: "x < 2 ^ 62 \<Longrightarrow> drop_bit 2 (push_bit 2 x) = x" for x :: "64 word"
  by (simp add: size_roundtrip take_bit_eq_mask less_mask_eq)

lemma status_of_size: "push_bit 2 x AND 1 = 0" for x :: "64 word"
  by (rule bit_eqI) (auto simp: bit_simps)

lemma take_bit_size_minus_8:
  "8 \<le> n \<Longrightarrow> n < 2 ^ 62 + 8 \<Longrightarrow> take_bit 62 (n - 8) = n - 8" for n :: "64 word"
proof -
  assume "8 \<le> n" "n < 2 ^ 62 + 8"
  then have "n - 8 < 2 ^ 62" by unat_arith
  then show ?thesis by (simp add: take_bit_eq_mask less_mask_eq)
qed

section \<open>Initialisation\<close>

lemma init_imp_facts:
  "snd (myinit_imp s b n)"
  "nblocks_imp (fst (myinit_imp s b n)) = 1"
  "nused_imp (fst (myinit_imp s b n)) = 0"
  "start_block_imp (fst (myinit_imp s b n)) = b + 8"
  "check_alloc (heap_imp (fst (myinit_imp s b n))) (b + 8) = 0"
  "get_block_size (heap_imp (fst (myinit_imp s b n))) (b + 8) = take_bit 62 (n - 8)"
  by (simp_all add: myinit_imp_def hdr_defs load64_store64_same size_roundtrip status_of_size)

lemma init_exp_facts:
  "snd (myinit_exp t b n)"
  "nblocks_exp (fst (myinit_exp t b n)) = 1"
  "nused_exp (fst (myinit_exp t b n)) = 0"
  "start_block_exp (fst (myinit_exp t b n)) = b + 8"
  "last_free_block_exp (fst (myinit_exp t b n)) = b + 8"
  "check_alloc (heap_exp (fst (myinit_exp t b n))) (b + 8) = 0"
  "get_block_size (heap_exp (fst (myinit_exp t b n))) (b + 8) = take_bit 62 (n - 8)"
  by (simp_all add: myinit_exp_def hdr_defs create_hdr_def load64_store64_same
      load64_store64_apart apart_consts size_roundtrip status_of_size)

lemma init_exp_links:
  "get_prev_free (heap_exp (fst (myinit_exp t b n))) (b + 8) = 0"
  "get_next_free (heap_exp (fst (myinit_exp t b n))) (b + 8) = 0"
  by (simp_all add: myinit_exp_def create_hdr_def get_prev_free_def get_next_free_def hdr_defs
      load64_store64_same load64_store64_apart apart_def)

text \<open>A store of 8 bytes at offset \<open>k\<close> of a region of at least \<open>k + 8\<close> bytes changes no byte
  outside the region.\<close>

lemma store64_outside:
  fixes x a k :: "64 word"
  assumes "k + 8 \<le> d" "k \<le> 16" "d \<le> x - a"
  shows "store64 m (a + k) v x = m x"
proof -
  have uk: "unat k \<le> 16" using assms(2) by (simp add: word_le_nat_alt)
  then have k8: "unat (k + 8) = unat k + 8" by (simp add: unat_add_lem[THEN iffD1])
  have "k + 8 \<le> x - a" using assms(1,3) by (rule order_trans)
  then have le: "unat k + 8 \<le> unat (x - a)" by (simp add: word_le_nat_alt k8)
  then have "k \<le> x - a" by (simp add: word_le_nat_alt)
  then have "unat (x - a - k) = unat (x - a) - unat k" by (rule unat_sub)
  then have "8 \<le> unat (x - a - k)" using le by simp
  then have f: "\<not> x - a - k < 8" by (simp add: word_less_nat_alt)
  have e: "x - (a + k) = x - a - k" by simp
  have "\<not> x - (a + k) < 8" unfolding e by (rule f)
  then show ?thesis by (rule store64_other)
qed

lemma init_imp_frame:
  fixes b n :: "64 word"
  assumes "8 \<le> n" "\<not> x - b < n"
  shows "heap_imp (fst (myinit_imp s b n)) x = heap_imp s x"
proof -
  have "n \<le> x - b" using assms(2) by (simp add: not_less)
  then show ?thesis
    using store64_outside [of 0 n x b "heap_imp s"] assms(1) by (simp add: myinit_imp_def)
qed

lemma init_exp_frame:
  fixes b n :: "64 word"
  assumes "24 \<le> n" "\<not> x - b < n"
  shows "heap_exp (fst (myinit_exp t b n)) x = heap_exp t x"
proof -
  have d: "n \<le> x - b" using assms(2) by (simp add: not_less)
  have n8: "8 \<le> n" and n16: "16 \<le> n"
    using assms(1) by (simp_all add: word_le_nat_alt)
  have a: "\<And>m v. store64 m b v x = m x"
    using store64_outside [of 0 n x b] n8 d by simp
  have b: "\<And>m v. store64 m (b + 8) v x = m x"
    using store64_outside [of 8 n x b] n16 d by simp
  have c: "\<And>m v. store64 m (b + 16) v x = m x"
    using store64_outside [of 16 n x b] assms(1) d by simp
  show ?thesis
    by (simp add: myinit_exp_def create_hdr_def a b c)
qed

lemma start_block_nonnull:
  fixes b n :: "64 word"
  assumes "unat b + unat n < 2 ^ 64" "8 \<le> n"
  shows "b + 8 \<noteq> 0"
proof -
  have "8 \<le> unat n" using assms(2) by (simp add: word_le_nat_alt)
  then have "unat b + unat (8 :: 64 word) < 2 ^ LENGTH(64)" using assms(1) by simp
  then have "unat (b + 8) = unat b + unat (8 :: 64 word)" by (rule unat_add_lem[THEN iffD1])
  then have "0 < unat (b + 8)" by simp
  then show ?thesis by (simp add: unat_gt_0)
qed

text \<open>
  C10, as amended. \<^verbatim>\<open>myinit\<close> checks nothing. Take a region that a host can hand over: a
  base that is not null, a size below \<open>2 ^ 62 + 8\<close>, and an end \<open>base + size\<close> that does not
  wrap around the address space. If the region holds what \<^verbatim>\<open>myinit\<close> writes (8 bytes in the
  implicit variant, the 24 bytes of the header struct in the explicit one), then \<^verbatim>\<open>myinit\<close>
  returns true and resets the allocator to a single free block at \<open>base + 8\<close> of payload size
  \<open>size - 8\<close>: one block, none used, the status bit clear, in the explicit variant the block
  is the free-list tail and both its links are null. No byte outside the region is changed.
  Nothing is said here about a null base or a region too small for the header.
\<close>

theorem init_never_fails:
  fixes b n :: "64 word"
  assumes "b \<noteq> 0" and "unat b + unat n < 2 ^ 64" and "n < 2 ^ 62 + 8"
  shows "(8 \<le> n \<longrightarrow>
            snd (myinit_imp s b n)
          \<and> segment_start_imp (fst (myinit_imp s b n)) = b
          \<and> segment_end_imp (fst (myinit_imp s b n)) = b + n
          \<and> segment_size_imp (fst (myinit_imp s b n)) = n
          \<and> nblocks_imp (fst (myinit_imp s b n)) = 1
          \<and> nused_imp (fst (myinit_imp s b n)) = 0
          \<and> start_block_imp (fst (myinit_imp s b n)) = b + 8
          \<and> start_block_imp (fst (myinit_imp s b n)) \<noteq> 0
          \<and> check_alloc (heap_imp (fst (myinit_imp s b n))) (b + 8) = 0
          \<and> get_block_size (heap_imp (fst (myinit_imp s b n))) (b + 8) = n - 8
          \<and> (\<forall>x. \<not> x - b < n \<longrightarrow> heap_imp (fst (myinit_imp s b n)) x = heap_imp s x))
       \<and> (24 \<le> n \<longrightarrow>
            snd (myinit_exp t b n)
          \<and> segment_start_exp (fst (myinit_exp t b n)) = b
          \<and> segment_size_exp (fst (myinit_exp t b n)) = n
          \<and> nblocks_exp (fst (myinit_exp t b n)) = 1
          \<and> nused_exp (fst (myinit_exp t b n)) = 0
          \<and> start_block_exp (fst (myinit_exp t b n)) = b + 8
          \<and> start_block_exp (fst (myinit_exp t b n)) \<noteq> 0
          \<and> last_free_block_exp (fst (myinit_exp t b n)) = b + 8
          \<and> check_alloc (heap_exp (fst (myinit_exp t b n))) (b + 8) = 0
          \<and> get_block_size (heap_exp (fst (myinit_exp t b n))) (b + 8) = n - 8
          \<and> get_prev_free (heap_exp (fst (myinit_exp t b n))) (b + 8) = 0
          \<and> get_next_free (heap_exp (fst (myinit_exp t b n))) (b + 8) = 0
          \<and> (\<forall>x. \<not> x - b < n \<longrightarrow> heap_exp (fst (myinit_exp t b n)) x = heap_exp t x))"
proof -
  have imp: "segment_start_imp (fst (myinit_imp s b n)) = b"
    "segment_end_imp (fst (myinit_imp s b n)) = b + n"
    "segment_size_imp (fst (myinit_imp s b n)) = n"
    by (simp_all add: myinit_imp_def)
  have exp: "segment_start_exp (fst (myinit_exp t b n)) = b"
    "segment_size_exp (fst (myinit_exp t b n)) = n"
    by (simp_all add: myinit_exp_def)
  have n8: "24 \<le> n \<Longrightarrow> 8 \<le> n"
    by (simp add: word_le_nat_alt)
  have nz: "8 \<le> n \<Longrightarrow> b + 8 \<noteq> 0"
    using assms(2) by (rule start_block_nonnull)
  show ?thesis
    using assms(3)
    by (simp add: imp exp n8 nz init_imp_facts init_exp_facts init_exp_links
        take_bit_size_minus_8 init_imp_frame init_exp_frame)
qed

theorem init_never_fails_witness:
  "snd (myinit_imp imp_boot 0x1000 4096) \<and> snd (myinit_exp exp_boot 0x1000 4096)
   \<and> nblocks_imp imp_fresh = 1 \<and> nblocks_exp exp_fresh = 1
   \<and> get_block_size (heap_imp imp_fresh) 0x1008 = 4088
   \<and> get_block_size (heap_exp exp_fresh) 0x1008 = 4088
   \<and> heap_imp imp_fresh 0x2000 = heap_imp imp_boot 0x2000
   \<and> heap_exp exp_fresh 0x2000 = heap_exp exp_boot 0x2000"
  using init_never_fails [of "0x1000" 4096 imp_boot exp_boot]
  by (simp add: imp_fresh_def exp_fresh_def)

text \<open>
  The claim as stated, for every region size, fails for a region smaller than a header:
  with size 0 the header that \<^verbatim>\<open>myinit\<close> writes says payload size \<open>2 ^ 62 - 8\<close>, not
  size - 8.
\<close>

theorem init_payload_size_counterexample:
  "get_block_size (heap_imp (fst (myinit_imp imp_boot 0x1000 0))) 0x1008 \<noteq> 0 - 8
   \<and> get_block_size (heap_exp (fst (myinit_exp exp_boot 0x1000 0))) 0x1008 \<noteq> 0 - 8"
  using init_imp_facts(6) [of imp_boot "0x1000" 0] init_exp_facts(7) [of exp_boot "0x1000" 0]
  by simp

section \<open>Failing and degenerate requests\<close>

lemma mymalloc_imp_null: "mymalloc_imp s n = (s', 0) \<Longrightarrow> s' = s"
  by (auto simp: mymalloc_imp_def Let_def split: if_splits)

lemma mymalloc_exp_null: "mymalloc_exp t n = (t', 0) \<Longrightarrow> t' = t"
  by (auto simp: mymalloc_exp_def Let_def split: if_splits prod.splits)

lemma imp_fresh_eval:
  "imp_fresh = \<lparr>heap_imp = store64 zero_mem 0x1000 16352, segment_start_imp = 0x1000,
     segment_end_imp = 0x2000, segment_size_imp = 4096, nblocks_imp = 1, nused_imp = 0,
     bytes_used_imp = 0, start_block_imp = 0x1008\<rparr>"
  by (simp add: imp_fresh_def imp_boot_def myinit_imp_def WIDTH_def)

lemma exp_fresh_eval:
  "exp_fresh = \<lparr>heap_exp = store64 (store64 (store64 zero_mem 0x1000 16352) 0x1008 0) 0x1010 0,
     segment_start_exp = 0x1000, segment_size_exp = 4096, start_block_exp = 0x1008,
     nblocks_exp = 1, nused_exp = 0, last_free_block_exp = 0x1008\<rparr>"
  by (simp add: exp_fresh_def exp_boot_def myinit_exp_def create_hdr_def WIDTH_def)

lemma out_of_memory_imp: "snd (mymalloc_imp imp_fresh 5000) = 0"
  by (simp add: mymalloc_imp_def imp_fresh_eval imp_defs hdr_defs mem_simps)

lemma out_of_memory_exp: "snd (mymalloc_exp exp_fresh 5000) = 0"
  by (simp add: mymalloc_exp_def exp_fresh_eval exp_defs hdr_defs mem_simps)

text \<open>
  C4. In both variants, whenever \<^verbatim>\<open>mymalloc\<close> returns the null pointer, the state it
  returns, heap bytes and bookkeeping variables alike, is the state it was called in.
\<close>

theorem malloc_failure_atomic:
  "(mymalloc_imp s n = (s', 0) \<longrightarrow> s' = s) \<and> (mymalloc_exp t n = (t', 0) \<longrightarrow> t' = t)"
  using mymalloc_imp_null mymalloc_exp_null by blast

theorem malloc_failure_atomic_witness:
  "snd (mymalloc_imp imp_fresh 5000) = 0 \<and> fst (mymalloc_imp imp_fresh 5000) = imp_fresh
   \<and> snd (mymalloc_exp exp_fresh 5000) = 0 \<and> fst (mymalloc_exp exp_fresh 5000) = exp_fresh"
proof -
  have i: "mymalloc_imp imp_fresh 5000 = (fst (mymalloc_imp imp_fresh 5000), 0)"
    using out_of_memory_imp by (simp add: prod_eq_iff)
  have e: "mymalloc_exp exp_fresh 5000 = (fst (mymalloc_exp exp_fresh 5000), 0)"
    using out_of_memory_exp by (simp add: prod_eq_iff)
  show ?thesis
    using i e out_of_memory_imp out_of_memory_exp
      malloc_failure_atomic [of imp_fresh 5000 "fst (mymalloc_imp imp_fresh 5000)"
        exp_fresh "fst (mymalloc_exp exp_fresh 5000)"]
    by simp
qed

text \<open>
  C8. In both variants \<^verbatim>\<open>myrealloc\<close> with a null pointer is \<^verbatim>\<open>mymalloc\<close> of the size,
  and \<^verbatim>\<open>myrealloc\<close> of a non-null pointer with size 0 is \<^verbatim>\<open>myfree\<close> of the pointer,
  with all of its effect on the state, and returns null.
\<close>

theorem realloc_degenerate:
  "myrealloc_imp s 0 n = mymalloc_imp s n
   \<and> myrealloc_exp t 0 n = Some (mymalloc_exp t n)
   \<and> (p \<noteq> 0 \<longrightarrow> myrealloc_imp s p 0 = (myfree_imp s p, 0)
                 \<and> myrealloc_exp t p 0 = Some (myfree_exp t p, 0))"
  by (simp add: myrealloc_imp_def myrealloc_exp_def)

theorem realloc_degenerate_witness:
  "(0x1008::addr) \<noteq> 0
   \<and> myrealloc_imp (fst (mymalloc_imp imp_fresh 16)) 0x1008 0
       = (myfree_imp (fst (mymalloc_imp imp_fresh 16)) 0x1008, 0)
   \<and> myrealloc_exp (fst (mymalloc_exp exp_fresh 16)) 0x1008 0
       = Some (myfree_exp (fst (mymalloc_exp exp_fresh 16)) 0x1008, 0)"
  using realloc_degenerate [of "fst (mymalloc_imp imp_fresh 16)" 0
      "fst (mymalloc_exp exp_fresh 16)" "0x1008"]
  by simp

section \<open>Symbolic evaluation on a region at any base\<close>

lemma off_intro:
  "b + numeral k = off b (numeral k)" "numeral k + b = off b (numeral k)"
  by (simp_all add: off_def)

lemma off_arith:
  "off b j + k = off b (j + k)" "k + off b j = off b (j + k)" "off b j - k = off b (j - k)"
  "off b 0 = b"
  by (simp_all add: off_def)

lemma apart_at_base:
  "apart (off b j) (off b k) = apart j k"
  "apart b (off b k) = apart 0 k"
  "apart (off b k) b = apart k 0"
  by (simp_all add: apart_def off_def)

lemma off_eq: "off b j = off b k \<longleftrightarrow> j = k" "off b j = b \<longleftrightarrow> j = 0" "b = off b j \<longleftrightarrow> j = 0"
  by (auto simp add: off_def)

lemma apart_num:
  "apart (numeral j) (numeral k) \<longleftrightarrow>
     8 \<le> (numeral j :: 64 word) - numeral k \<and> 8 \<le> (numeral k :: 64 word) - numeral j"
  "apart 0 (numeral k) \<longleftrightarrow> 8 \<le> (0 :: 64 word) - numeral k \<and> 8 \<le> (numeral k :: 64 word)"
  "apart (numeral k) 0 \<longleftrightarrow> 8 \<le> (0 :: 64 word) - numeral k \<and> 8 \<le> (numeral k :: 64 word)"
  by (auto simp add: apart_def)

lemmas sym_simps = load64_store64_same load64_store64_apart store64_store64_same
  off_arith apart_at_base off_eq apart_num

lemma clear_low: "(x AND - 4) AND 3 = 0" "(x AND NOT 3) AND 3 = 0" for x :: "64 word"
  by (rule bit_eqI; auto simp: bit_simps)+

lemma in_region_nonnull:
  fixes b k :: "64 word"
  assumes "unat b + 4096 \<le> 2 ^ 64" "0 < k" "k < 4096"
  shows "off b k \<noteq> 0"
proof
  assume z: "off b k = 0"
  have "unat k < 4096" "0 < unat k" using assms by (simp_all add: word_less_nat_alt)
  then have "unat (b + k) = unat b + unat k"
    using assms(1) by (simp add: unat_add_lem[THEN iffD1])
  with z \<open>0 < unat k\<close> show False by (simp add: off_def)
qed

lemma init_exp_eval:
  "fst (myinit_exp t b 4096) = t\<lparr>segment_start_exp := b, segment_size_exp := 4096,
        last_free_block_exp := off b 8, start_block_exp := off b 8,
        heap_exp := store64 (store64 (store64 (heap_exp t) b 16352) (off b 8) 0) (off b 16) 0,
        nblocks_exp := 1, nused_exp := 0\<rparr>"
  by (simp add: myinit_exp_def create_hdr_def WIDTH_def off_def)

lemma ma_eval: 
  assumes "off b 8 \<noteq> 0"
  shows "mymalloc_exp (fst (myinit_exp t b 4096)) 100 =
    (t\<lparr>segment_start_exp := b, segment_size_exp := 4096,
         start_block_exp := off b 8, last_free_block_exp := off b 120,
         nblocks_exp := 2,
         heap_exp :=
           store64 (store64 (store64 (store64 (store64 (store64 (store64 (heap_exp t)
             b 16352) (off b 8) 0) (off b 16) 0) (off b 112) 15904) (off b 120) 0)
             (off b 128) 0) b 417,
         nused_exp := 1\<rparr>,
     off b 8)"
  using assms
  by (simp add: init_exp_eval mymalloc_exp_def exp_defs hdr_defs sym_simps Let_def off_intro[where b=b])

lemma ra_eval:
  assumes "off b 8 \<noteq> 0" "off b 120 \<noteq> 0" "off b 48 \<noteq> 0"
  shows "myrealloc_exp (fst (mymalloc_exp (fst (myinit_exp t b 4096)) 100)) (off b 8) 32 =
    Some
     (t\<lparr>segment_start_exp := b, segment_size_exp := 4096,
          start_block_exp := off b 8, nused_exp := 1,
          last_free_block_exp := off b 48,
          heap_exp :=
            store64 (store64 (store64 (store64 (store64 (store64 (store64 (store64 (store64
              (store64 (store64 (store64 (heap_exp t)
              b 16352) (off b 8) 0) (off b 16) 0) (off b 112) 15904) (off b 120) 0)
              (off b 128) 0) b 129) (off b 40) (load64 (heap_exp t) (off b 40) AND - 4))
              (off b 128) (off b 48)) (off b 48) (off b 120)) (off b 56) 0) (off b 40) 256,
          nblocks_exp := 3\<rparr>,
      off b 8)"
    using assms
  by (simp add: ma_eval myrealloc_exp_def exp_defs hdr_defs sym_simps Let_def clear_low off_intro[where b=b])

text \<open>
  C7, as amended. Explicit variant, on a freshly initialised 4096-byte region whose base is
  8-byte aligned and which lies inside the address space: \<^verbatim>\<open>p = mymalloc(100)\<close> returns
  base + 8 with payload size 104 (the request rounded up to a multiple of 8), and then
  \<^verbatim>\<open>myrealloc(p, 32)\<close> returns \<open>p\<close>, leaves \<open>p\<close> allocated with payload size 32, and
  creates immediately to its right, at \<open>p + 40\<close>, a new free block of payload size
  64 = 104 - 32 - 8.
\<close>

theorem shrink_split_scenario:
  assumes "b AND 7 = 0" "unat b + 4096 \<le> 2 ^ 64"
  shows "\<exists>s2 s3.
     mymalloc_exp (fst (myinit_exp t b 4096)) 100 = (s2, b + 8)
     \<and> get_block_size (heap_exp s2) (b + 8) = 104
     \<and> myrealloc_exp s2 (b + 8) 32 = Some (s3, b + 8)
     \<and> get_block_size (heap_exp s3) (b + 8) = 32
     \<and> check_alloc (heap_exp s3) (b + 8) = 1
     \<and> get_next_block_exp (heap_exp s3) (b + 8) = b + 48
     \<and> check_alloc (heap_exp s3) (b + 48) = 0
     \<and> get_block_size (heap_exp s3) (b + 48) = 64
     \<and> nblocks_exp s3 = 3"
proof -
  have n8: "off b 8 \<noteq> 0" by (rule in_region_nonnull[OF assms(2)]) simp_all
  have n120: "off b 120 \<noteq> 0" by (rule in_region_nonnull[OF assms(2)]) simp_all
  have n48: "off b 48 \<noteq> 0" by (rule in_region_nonnull[OF assms(2)]) simp_all
  obtain s2 where s2: "mymalloc_exp (fst (myinit_exp t b 4096)) 100 = (s2, off b 8)"
    and h2: "heap_exp s2 = store64 (store64 (store64 (store64 (store64 (store64 (store64 (heap_exp t)
             b 16352) (off b 8) 0) (off b 16) 0) (off b 112) 15904) (off b 120) 0)
             (off b 128) 0) b 417"
    using ma_eval[OF n8, of t] by simp
  obtain s3 where s3: "myrealloc_exp s2 (off b 8) 32 = Some (s3, off b 8)"
    and h3: "heap_exp s3 = store64 (store64 (store64 (store64 (store64 (store64 (store64 (store64 (store64
              (store64 (store64 (store64 (heap_exp t)
              b 16352) (off b 8) 0) (off b 16) 0) (off b 112) 15904) (off b 120) 0)
              (off b 128) 0) b 129) (off b 40) (load64 (heap_exp t) (off b 40) AND - 4))
              (off b 128) (off b 48)) (off b 48) (off b 120)) (off b 56) 0) (off b 40) 256"
    and n3: "nblocks_exp s3 = 3"
    using ra_eval[OF n8 n120 n48, of t] s2 by simp
  have "get_block_size (heap_exp s2) (off b 8) = 104"
    "get_block_size (heap_exp s3) (off b 8) = 32"
    "check_alloc (heap_exp s3) (off b 8) = 1"
    "get_next_block_exp (heap_exp s3) (off b 8) = off b 48"
    "check_alloc (heap_exp s3) (off b 48) = 0"
    "get_block_size (heap_exp s3) (off b 48) = 64"
    by (simp_all add: h2 h3 hdr_defs get_next_block_exp_def sym_simps)
  with s2 s3 n3 show ?thesis
    by (simp add: off_def)
qed

theorem shrink_split_scenario_witness:
  "(0x1000 :: addr) AND 7 = 0 \<and> unat (0x1000 :: addr) + 4096 \<le> 2 ^ 64
   \<and> (\<exists>s2 s3.
     mymalloc_exp exp_fresh 100 = (s2, 0x1008)
     \<and> myrealloc_exp s2 0x1008 32 = Some (s3, 0x1008)
     \<and> get_block_size (heap_exp s3) 0x1008 = 32
     \<and> get_next_block_exp (heap_exp s3) 0x1008 = 0x1030
     \<and> check_alloc (heap_exp s3) 0x1030 = 0
     \<and> get_block_size (heap_exp s3) 0x1030 = 64)"
proof -
  have a: "(0x1000 :: addr) AND 7 = 0" by simp
  have r: "unat (0x1000 :: addr) + 4096 \<le> 2 ^ 64" by simp
  show ?thesis
    using a r shrink_split_scenario [OF a r, of exp_boot]
    by (simp add: exp_fresh_def) blast
qed

lemma exp_m100_eval:
  "exp_m100 = (\<lparr>heap_exp =
       store64 (store64 (store64 (store64 (store64 (store64 (store64 zero_mem 0x1000 16352) 0x1008 0) 0x1010 0) 0x1070 15904) 0x1078 0) 0x1080 0) 0x1000 417,
     segment_start_exp = 0x1000, segment_size_exp = 4096, start_block_exp = 0x1008,
     nblocks_exp = 2, nused_exp = 1, last_free_block_exp = 0x1078\<rparr>, 0x1008)"
  by (simp add: exp_m100_def mymalloc_exp_def exp_fresh_eval exp_defs hdr_defs mem_simps)

lemma exp_r32_eval:
  "exp_r32 = Some (\<lparr>heap_exp =
       store64 (store64 (store64 (store64 (store64 (store64 (store64 (store64 (store64 (store64 (store64 (store64 zero_mem 0x1000 16352) 0x1008 0) 0x1010 0) 0x1070 15904) 0x1078 0) 0x1080 0) 0x1000 129) 0x1028 0) 0x1080 0x1030) 0x1030 0x1078) 0x1038 0) 0x1028 256,
     segment_start_exp = 0x1000, segment_size_exp = 4096, start_block_exp = 0x1008,
     nblocks_exp = 3, nused_exp = 1, last_free_block_exp = 0x1030\<rparr>, 0x1008)"
  by (simp add: exp_r32_def exp_m100_eval myrealloc_exp_def exp_defs hdr_defs mem_simps)

text \<open>
  The claim as stated fails on the size of the new free block: \<^verbatim>\<open>mymalloc(100)\<close> hands
  out 104 bytes, so the tail split off by \<^verbatim>\<open>myrealloc(p, 32)\<close> has payload 64, not 60.
\<close>

theorem shrink_split_counterexample:
  "exp_r32 \<noteq> None
   \<and> snd (the exp_r32) = snd exp_m100
   \<and> get_block_size (heap_exp (fst exp_m100)) (snd exp_m100) = 104
   \<and> get_block_size (heap_exp (fst (the exp_r32))) (snd exp_m100) = 32
   \<and> get_next_block_exp (heap_exp (fst (the exp_r32))) (snd exp_m100) = 0x1030
   \<and> check_alloc (heap_exp (fst (the exp_r32))) 0x1030 = 0
   \<and> get_block_size (heap_exp (fst (the exp_r32))) 0x1030 = 64
   \<and> get_block_size (heap_exp (fst (the exp_r32))) 0x1030 \<noteq> 60"
  by (simp add: exp_r32_eval exp_m100_eval hdr_defs get_next_block_exp_def mem_simps)

section \<open>Headers read back after writes\<close>

lemma three_mask: "(3 :: 64 word) = mask 2"
  by (simp add: mask_eq_exp_minus_1)

lemma bit64_bound: "bit x (Suc (Suc n)) \<Longrightarrow> n < 62" for x :: "64 word"
  using bit_imp_le_length[of x "Suc (Suc n)"] by simp

lemma hdr_bits:
  fixes x r :: "64 word"
  shows "drop_bit 2 ((x AND 3) OR push_bit 2 r) = take_bit 62 r"
    and "drop_bit 2 ((x AND NOT 3) OR 1) = drop_bit 2 x"
    and "drop_bit 2 (x AND NOT 3) = drop_bit 2 x"
    and "((x AND 3) OR push_bit 2 r) AND 1 = x AND 1"
    and "((x AND NOT 3) OR 1) AND 1 = 1"
    and "(x AND NOT 3) AND 1 = 0"
    and "(x AND NOT 3) AND 3 = 0"
    and "((x AND NOT 3) OR 1) AND 3 = 1"
  unfolding three_mask
  by (rule bit_eqI; auto simp: bit_simps dest: bit64_bound)+

lemma get_block_size_set_hdr_size [simp]:
  "get_block_size (set_hdr_size m p z) p = take_bit 62 z"
  unfolding get_block_size_def set_hdr_size_def get_ul_def
  by (simp only: load64_store64_same hdr_bits)

lemma get_block_size_set_hdr_status [simp]:
  "get_block_size (set_hdr_status m p ALLOC) p = get_block_size m p"
  "get_block_size (set_hdr_status m p FREE) p = get_block_size m p"
  unfolding get_block_size_def set_hdr_status_def get_ul_def ALLOC_def FREE_def
  by (simp_all only: load64_store64_same hdr_bits or.right_neutral)

lemma check_alloc_set_hdr_size [simp]:
  "check_alloc (set_hdr_size m p z) p = check_alloc m p"
  unfolding check_alloc_def set_hdr_size_def get_ul_def
  by (simp only: load64_store64_same hdr_bits)

lemma check_alloc_set_hdr_status [simp]:
  "check_alloc (set_hdr_status m p ALLOC) p = 1"
  "check_alloc (set_hdr_status m p FREE) p = 0"
  unfolding check_alloc_def set_hdr_status_def get_ul_def ALLOC_def FREE_def
  by (simp_all only: load64_store64_same hdr_bits or.right_neutral)

lemma get_block_size_lt: "get_block_size m p < 2 ^ 62"
proof -
  have "take_bit 62 (get_block_size m p) = get_block_size m p"
    unfolding get_block_size_def
    by (rule bit_eqI) (auto simp: bit_simps dest: bit64_bound)
  moreover have "get_block_size m p AND mask 62 < 2 ^ 62"
    by (rule and_mask_less') simp
  ultimately show ?thesis
    by (simp add: take_bit_eq_mask)
qed

lemma take_bit_size [simp]: "take_bit 62 (get_block_size m p) = get_block_size m p"
  using get_block_size_lt[of m p] by (simp add: take_bit_eq_mask less_mask_eq)

text \<open>Frames: a store somewhere else does not change a header or a link.\<close>

lemma get_block_size_store64 [simp]:
  "apart (get_hdr q) a \<Longrightarrow> get_block_size (store64 m a v) q = get_block_size m q"
  by (simp add: get_block_size_def get_ul_def load64_store64_apart)

lemma check_alloc_store64 [simp]:
  "apart (get_hdr q) a \<Longrightarrow> check_alloc (store64 m a v) q = check_alloc m q"
  by (simp add: check_alloc_def get_ul_def load64_store64_apart)

lemma get_block_size_set_hdr_other [simp]:
  "apart (get_hdr q) (get_hdr p) \<Longrightarrow> get_block_size (set_hdr_size m p z) q = get_block_size m q"
  "apart (get_hdr q) (get_hdr p) \<Longrightarrow> get_block_size (set_hdr_status m p st) q = get_block_size m q"
  by (simp_all add: set_hdr_size_def set_hdr_status_def)

lemma check_alloc_set_hdr_other [simp]:
  "apart (get_hdr q) (get_hdr p) \<Longrightarrow> check_alloc (set_hdr_size m p z) q = check_alloc m q"
  "apart (get_hdr q) (get_hdr p) \<Longrightarrow> check_alloc (set_hdr_status m p st) q = check_alloc m q"
  by (simp_all add: set_hdr_size_def set_hdr_status_def)

text \<open>Offsets from one pointer: two cells are apart when their offsets differ by 8 to 2^64 - 8.\<close>

lemma apart_offsets:
  "apart (p + j) (p + k) \<longleftrightarrow> apart j k"
  "apart (p + j) p \<longleftrightarrow> apart j 0"
  "apart p (p + k) \<longleftrightarrow> apart 0 k"
  "apart (p - j) (p + k) \<longleftrightarrow> apart (- j) k"
  "apart (p + j) (p - k) \<longleftrightarrow> apart j (- k)"
  "apart (p - j) p \<longleftrightarrow> apart (- j) 0"
  "apart p (p - k) \<longleftrightarrow> apart 0 (- k)"
  "apart (p - j) (p - k) \<longleftrightarrow> apart k j"
  by (simp_all add: apart_def)


lemma apart_nat:
  "apart j k \<longleftrightarrow> (unat j + 8 \<le> unat k \<and> unat k + 8 \<le> unat j + 2 ^ 64) \<or> (unat k + 8 \<le> unat j \<and> unat j + 8 \<le> unat k + 2 ^ 64)"
proof -
  have bj: "unat j < 2 ^ 64" and bk: "unat k < 2 ^ 64"
    using unsigned_less[of j, where ?'a=nat] unsigned_less[of k, where ?'a=nat] by simp_all
  show ?thesis
    unfolding apart_def word_le_nat_alt
    using bj bk by (simp add: unat_sub_if_size word_size) arith
qed

lemma unat_lt_62: "x < 2 ^ 62 \<longleftrightarrow> unat x < 2 ^ 62" for x :: "64 word"
  by (simp add: word_less_nat_alt)

lemma unat_minus_8: "unat (- 8 :: 64 word) = 2 ^ 64 - 8"
  by simp

lemma apart_hdr: "x < 2 ^ 62 \<Longrightarrow> apart (p + x) (p - 8)" for x :: "64 word"
proof -
  assume "x < 2 ^ 62"
  then have "unat x < 2 ^ 62" by (simp add: word_less_nat_alt)
  then show ?thesis unfolding apart_offsets by (simp add: apart_nat)
qed

lemma apart_fwd:
  "unat k + 8 \<le> unat j \<Longrightarrow> unat j < 2 ^ 63 \<Longrightarrow> apart (p + j) (p + k)"
  unfolding apart_offsets by (simp add: apart_nat)

lemma size_sub_small:
  fixes sz r :: "64 word"
  assumes "r \<le> sz" "sz < 2 ^ 62" "c \<le> sz - r"
  shows "sz - r - c < 2 ^ 62"
proof -
  have 1: "unat (sz - r) = unat sz - unat r" using assms(1) by (rule unat_sub)
  have 2: "unat (sz - r - c) = unat (sz - r) - unat c" using assms(3) by (rule unat_sub)
  show ?thesis using assms(2) unfolding unat_lt_62 1 2 by simp
qed

section \<open>The splitting policy of malloc\<close>

lemma create_hdr_size [simp]:
  "get_block_size (create_hdr m loc z pr nx) (loc + 8) = take_bit 62 z"
  "check_alloc (create_hdr m loc z pr nx) (loc + 8) = 0"
  by (simp_all add: create_hdr_def get_block_size_def check_alloc_def get_ul_def get_hdr_def WIDTH_def
      load64_store64_same load64_store64_apart apart_offsets apart_def size_roundtrip status_of_size)

lemma take_bit_62_small: "x < 2 ^ 62 \<Longrightarrow> take_bit 62 x = x" for x :: "64 word"
  by (simp add: take_bit_eq_mask less_mask_eq)

lemma malloc_exp_policy:
  assumes n: "n \<noteq> 0"
    and b: "first_fit_exp s (round_up_exp n) = b" "b \<noteq> 0"
    and fit: "round_up_exp n \<le> get_block_size (heap_exp s) b"
  shows "snd (mymalloc_exp s n) = b"
    and "check_alloc (heap_exp (fst (mymalloc_exp s n))) b = 1"
    and "get_block_size (heap_exp s) b - round_up_exp n < 24 \<Longrightarrow>
           get_block_size (heap_exp (fst (mymalloc_exp s n))) b = get_block_size (heap_exp s) b
           \<and> nblocks_exp (fst (mymalloc_exp s n)) = nblocks_exp s"
    and "24 \<le> get_block_size (heap_exp s) b - round_up_exp n \<Longrightarrow>
           get_block_size (heap_exp (fst (mymalloc_exp s n))) b = round_up_exp n
           \<and> get_block_size (heap_exp (fst (mymalloc_exp s n))) (b + round_up_exp n + 8)
               = get_block_size (heap_exp s) b - round_up_exp n - 8
           \<and> check_alloc (heap_exp (fst (mymalloc_exp s n))) (b + round_up_exp n + 8) = 0
           \<and> nblocks_exp (fst (mymalloc_exp s n)) = nblocks_exp s + 1"
proof -
  define r where "r = round_up_exp n"
  define sz where "sz = get_block_size (heap_exp s) b"
  have szlt: "sz < 2 ^ 62" unfolding sz_def by (rule get_block_size_lt)
  have rle: "r \<le> sz" using fit by (simp add: r_def sz_def)
  have rlt: "r < 2 ^ 62" using rle szlt by (rule le_less_trans)
  have tr: "take_bit 62 r = r" using rlt by (rule take_bit_62_small)
  have td: "take_bit 62 (sz - r - 8) = sz - r - 8" if "24 \<le> sz - r"
  proof -
    have "8 \<le> sz - r" using that by (simp add: word_le_nat_alt)
    from size_sub_small[OF rle szlt this] show ?thesis by (rule take_bit_62_small)
  qed
  have ap: "apart (b + r) (b - 8)" using rlt by (rule apart_hdr)
  show "snd (mymalloc_exp s n) = b"
    using n b by (simp add: mymalloc_exp_def Let_def split_beta)
  show "check_alloc (heap_exp (fst (mymalloc_exp s n))) b = 1"
    using n b by (simp add: mymalloc_exp_def Let_def split_beta)
  show "get_block_size (heap_exp (fst (mymalloc_exp s n))) b = get_block_size (heap_exp s) b
           \<and> nblocks_exp (fst (mymalloc_exp s n)) = nblocks_exp s"
    if "get_block_size (heap_exp s) b - round_up_exp n < 24"
    using n b that by (simp add: mymalloc_exp_def Let_def split_beta sizeof_header_def)
  show "get_block_size (heap_exp (fst (mymalloc_exp s n))) b = round_up_exp n
           \<and> get_block_size (heap_exp (fst (mymalloc_exp s n))) (b + round_up_exp n + 8)
               = get_block_size (heap_exp s) b - round_up_exp n - 8
           \<and> check_alloc (heap_exp (fst (mymalloc_exp s n))) (b + round_up_exp n + 8) = 0
           \<and> nblocks_exp (fst (mymalloc_exp s n)) = nblocks_exp s + 1"
    if "24 \<le> get_block_size (heap_exp s) b - round_up_exp n"
  proof -
    have nl: "\<not> sz - r < 24" using that by (simp add: sz_def r_def)
    have h: "get_hdr (b + r + 8) = b + r" "get_hdr b = b - 8" by (simp_all add: get_hdr_def WIDTH_def)
    have e: "first_fit_exp s r = b" using b by (simp add: r_def)
    show ?thesis
      unfolding sz_def[symmetric] r_def[symmetric]
      using n e b(2) nl tr td[OF that[folded sz_def r_def]] ap h
      by (simp add: mymalloc_exp_def Let_def split_beta sizeof_header_def
          create_partial_fb_def upd_last_free_block_def WIDTH_def
          flip: sz_def r_def)
  qed
qed


lemma malloc_imp_policy:
  assumes n: "n \<noteq> 0"
    and b: "first_fit_imp s (round_up_imp n) = b" "b \<noteq> 0"
    and fit: "round_up_imp n \<le> get_block_size (heap_imp s) b"
  shows "snd (mymalloc_imp s n) = b"
    and "get_block_size (heap_imp s) b = round_up_imp n \<Longrightarrow>
           get_block_size (heap_imp (fst (mymalloc_imp s n))) b = get_block_size (heap_imp s) b
           \<and> check_alloc (heap_imp (fst (mymalloc_imp s n))) b = 1
           \<and> nblocks_imp (fst (mymalloc_imp s n)) = nblocks_imp s"
    and "8 \<le> get_block_size (heap_imp s) b - round_up_imp n \<Longrightarrow>
         b + round_up_imp n + 8 < segment_end_imp s \<Longrightarrow>
           get_block_size (heap_imp (fst (mymalloc_imp s n))) b = round_up_imp n
           \<and> check_alloc (heap_imp (fst (mymalloc_imp s n))) b = 1
           \<and> get_block_size (heap_imp (fst (mymalloc_imp s n))) (b + round_up_imp n + 8)
               = get_block_size (heap_imp s) b - round_up_imp n - 8
           \<and> check_alloc (heap_imp (fst (mymalloc_imp s n))) (b + round_up_imp n + 8) = 0
           \<and> nblocks_imp (fst (mymalloc_imp s n)) = nblocks_imp s + 1"
proof -
  define r where "r = round_up_imp n"
  define sz where "sz = get_block_size (heap_imp s) b"
  have szlt: "sz < 2 ^ 62" unfolding sz_def by (rule get_block_size_lt)
  have rle: "r \<le> sz" using fit by (simp add: r_def sz_def)
  have rlt: "r < 2 ^ 62" using rle szlt by (rule le_less_trans)
  have tr: "take_bit 62 r = r" using rlt by (rule take_bit_62_small)
  have ap: "apart (b + r) (b - 8)" using rlt by (rule apart_hdr)
  have ap': "apart (b - 8) (b + r)" using ap by (rule apart_sym)
  have h: "get_hdr (b + r + 8) = b + r" "get_hdr b = b - 8" by (simp_all add: get_hdr_def WIDTH_def)
  have e: "first_fit_imp s r = b" using b by (simp add: r_def)
  show "snd (mymalloc_imp s n) = b"
    using n b by (simp add: mymalloc_imp_def Let_def)
  show "get_block_size (heap_imp (fst (mymalloc_imp s n))) b = get_block_size (heap_imp s) b
           \<and> check_alloc (heap_imp (fst (mymalloc_imp s n))) b = 1
           \<and> nblocks_imp (fst (mymalloc_imp s n)) = nblocks_imp s"
    if "get_block_size (heap_imp s) b = round_up_imp n"
    using n b that tr[unfolded r_def] by (simp add: mymalloc_imp_def Let_def)
  show "get_block_size (heap_imp (fst (mymalloc_imp s n))) b = round_up_imp n
           \<and> check_alloc (heap_imp (fst (mymalloc_imp s n))) b = 1
           \<and> get_block_size (heap_imp (fst (mymalloc_imp s n))) (b + round_up_imp n + 8)
               = get_block_size (heap_imp s) b - round_up_imp n - 8
           \<and> check_alloc (heap_imp (fst (mymalloc_imp s n))) (b + round_up_imp n + 8) = 0
           \<and> nblocks_imp (fst (mymalloc_imp s n)) = nblocks_imp s + 1"
    if d: "8 \<le> get_block_size (heap_imp s) b - round_up_imp n"
      and inr: "b + round_up_imp n + 8 < segment_end_imp s"
  proof -
    have pos: "0 < sz - r" using d by (simp add: sz_def r_def word_less_nat_alt word_le_nat_alt)
    have td: "take_bit 62 (sz - r - 8) = sz - r - 8"
      using size_sub_small[OF rle szlt d[folded sz_def r_def]] by (rule take_bit_62_small)
    show ?thesis
      unfolding sz_def[symmetric] r_def[symmetric]
      using n e b(2) pos tr td ap ap' h inr[folded r_def]
      by (simp add: mymalloc_imp_def Let_def get_next_block_imp_def WIDTH_def flip: sz_def r_def)
  qed
qed


text \<open>
  C5, as amended. A successful \<^verbatim>\<open>mymalloc\<close> with rounded request \<open>r\<close> is served from
  the free block \<open>b\<close> that \<^verbatim>\<open>first_fit\<close> returns, of payload size \<open>s \<ge> r\<close>; let
  \<open>delta = s - r\<close>. Explicit variant: if \<open>delta < 24\<close> the whole block is allocated with
  payload size \<open>s\<close> and no block is created; otherwise the allocated block keeps payload
  size exactly \<open>r\<close> and a new free block of payload size \<open>delta - 8\<close> is created at
  \<open>payload(b) + r + 8\<close>. Implicit variant: there is no 24-byte threshold; only
  \<open>delta = 0\<close> allocates the whole block, and every \<open>delta \<ge> 8\<close> splits, the allocated
  block keeping \<open>r\<close> and a new free block of payload size \<open>delta - 8\<close> (possibly 0)
  being created at \<open>payload(b) + r + 8\<close> when that address lies below the region end.
\<close>

theorem malloc_split_policy:
  assumes "n \<noteq> 0" and "k \<noteq> 0"
    and "first_fit_exp t (round_up_exp n) = b" and "b \<noteq> 0"
    and "round_up_exp n \<le> get_block_size (heap_exp t) b"
    and "first_fit_imp s (round_up_imp k) = c" and "c \<noteq> 0"
    and "round_up_imp k \<le> get_block_size (heap_imp s) c"
    and "get_block_size (heap_imp s) c = round_up_imp k
         \<or> 8 \<le> get_block_size (heap_imp s) c - round_up_imp k
           \<and> c + round_up_imp k + 8 < segment_end_imp s"
  shows "snd (mymalloc_exp t n) = b
     \<and> check_alloc (heap_exp (fst (mymalloc_exp t n))) b = 1
     \<and> (if get_block_size (heap_exp t) b - round_up_exp n < 24
        then get_block_size (heap_exp (fst (mymalloc_exp t n))) b = get_block_size (heap_exp t) b
           \<and> nblocks_exp (fst (mymalloc_exp t n)) = nblocks_exp t
        else get_block_size (heap_exp (fst (mymalloc_exp t n))) b = round_up_exp n
           \<and> get_block_size (heap_exp (fst (mymalloc_exp t n))) (b + round_up_exp n + 8)
               = get_block_size (heap_exp t) b - round_up_exp n - 8
           \<and> check_alloc (heap_exp (fst (mymalloc_exp t n))) (b + round_up_exp n + 8) = 0
           \<and> nblocks_exp (fst (mymalloc_exp t n)) = nblocks_exp t + 1)
     \<and> snd (mymalloc_imp s k) = c
     \<and> check_alloc (heap_imp (fst (mymalloc_imp s k))) c = 1
     \<and> (if get_block_size (heap_imp s) c = round_up_imp k
        then get_block_size (heap_imp (fst (mymalloc_imp s k))) c = get_block_size (heap_imp s) c
           \<and> nblocks_imp (fst (mymalloc_imp s k)) = nblocks_imp s
        else get_block_size (heap_imp (fst (mymalloc_imp s k))) c = round_up_imp k
           \<and> get_block_size (heap_imp (fst (mymalloc_imp s k))) (c + round_up_imp k + 8)
               = get_block_size (heap_imp s) c - round_up_imp k - 8
           \<and> check_alloc (heap_imp (fst (mymalloc_imp s k))) (c + round_up_imp k + 8) = 0
           \<and> nblocks_imp (fst (mymalloc_imp s k)) = nblocks_imp s + 1)"
proof -
  note e = malloc_exp_policy[OF assms(1,3,4,5)]
  note i = malloc_imp_policy[OF assms(2,6,7,8)]
  have ex: "24 \<le> get_block_size (heap_exp t) b - round_up_exp n"
    if "\<not> get_block_size (heap_exp t) b - round_up_exp n < 24"
    using that by simp
  have im: "8 \<le> get_block_size (heap_imp s) c - round_up_imp k
           \<and> c + round_up_imp k + 8 < segment_end_imp s"
    if "get_block_size (heap_imp s) c \<noteq> round_up_imp k"
    using that assms(9) by blast
  show ?thesis
    using e(1,2) e(3) e(4)[OF ex] i(1) i(2) i(3) im
    by (simp split: if_splits)
qed

lemma imp_small_eval:
  "imp_small = \<lparr>heap_imp = store64 zero_mem 0x1000 128, segment_start_imp = 0x1000,
     segment_end_imp = 0x1028, segment_size_imp = 40, nblocks_imp = 1, nused_imp = 0,
     bytes_used_imp = 0, start_block_imp = 0x1008\<rparr>"
  by (simp add: imp_small_def imp_boot_def myinit_imp_def WIDTH_def)

lemma round_up_evals:
  "round_up_exp 100 = 104" "round_up_exp 4080 = 4080" "round_up_imp 16 = 16" "round_up_imp 32 = 32"
  by (simp_all add: round_up_exp_def round_up_imp_def WIDTH_def)

lemma first_fit_evals:
  "first_fit_exp exp_fresh 104 = 0x1008" "first_fit_exp exp_fresh 4080 = 0x1008"
  "first_fit_imp imp_small 16 = 0x1008" "first_fit_imp imp_small 32 = 0x1008"
  by (simp_all add: exp_fresh_eval imp_small_eval first_fit_exp_def first_fit_imp_def hdr_defs
       mem_simps)

lemma fresh_sizes:
  "get_block_size (heap_exp exp_fresh) 0x1008 = 4088"
  "get_block_size (heap_imp imp_small) 0x1008 = 32"
  "segment_end_imp imp_small = 0x1028"
  "nblocks_exp exp_fresh = 1" "nblocks_imp imp_small = 1"
  by (simp_all add: exp_fresh_eval imp_small_eval hdr_defs mem_simps)

theorem malloc_split_policy_witness:
  "get_block_size (heap_exp (fst (mymalloc_exp exp_fresh 100))) 0x1008 = 104
   \<and> get_block_size (heap_exp (fst (mymalloc_exp exp_fresh 100))) 0x1078 = 3976
   \<and> check_alloc (heap_exp (fst (mymalloc_exp exp_fresh 100))) 0x1078 = 0
   \<and> nblocks_exp (fst (mymalloc_exp exp_fresh 100)) = 2
   \<and> get_block_size (heap_exp (fst (mymalloc_exp exp_fresh 4080))) 0x1008 = 4088
   \<and> nblocks_exp (fst (mymalloc_exp exp_fresh 4080)) = 1
   \<and> get_block_size (heap_imp (fst (mymalloc_imp imp_small 16))) 0x1008 = 16
   \<and> get_block_size (heap_imp (fst (mymalloc_imp imp_small 16))) 0x1020 = 8
   \<and> check_alloc (heap_imp (fst (mymalloc_imp imp_small 16))) 0x1020 = 0
   \<and> nblocks_imp (fst (mymalloc_imp imp_small 16)) = 2
   \<and> get_block_size (heap_imp (fst (mymalloc_imp imp_small 32))) 0x1008 = 32
   \<and> nblocks_imp (fst (mymalloc_imp imp_small 32)) = 1"
proof -
  have nz: "(100 :: 64 word) \<noteq> 0" "(16 :: 64 word) \<noteq> 0" "(4080 :: 64 word) \<noteq> 0"
    "(32 :: 64 word) \<noteq> 0" "(0x1008 :: addr) \<noteq> 0"
    by simp_all
  have f: "first_fit_exp exp_fresh (round_up_exp 100) = 0x1008"
    "first_fit_exp exp_fresh (round_up_exp 4080) = 0x1008"
    "first_fit_imp imp_small (round_up_imp 16) = 0x1008"
    "first_fit_imp imp_small (round_up_imp 32) = 0x1008"
    by (simp_all add: round_up_evals first_fit_evals)
  have fit: "round_up_exp 100 \<le> get_block_size (heap_exp exp_fresh) 0x1008"
    "round_up_exp 4080 \<le> get_block_size (heap_exp exp_fresh) 0x1008"
    "round_up_imp 16 \<le> get_block_size (heap_imp imp_small) 0x1008"
    "round_up_imp 32 \<le> get_block_size (heap_imp imp_small) 0x1008"
    by (simp_all add: round_up_evals fresh_sizes)
  have c1: "get_block_size (heap_imp imp_small) 0x1008 = round_up_imp 16
         \<or> 8 \<le> get_block_size (heap_imp imp_small) 0x1008 - round_up_imp 16
           \<and> 0x1008 + round_up_imp 16 + 8 < segment_end_imp imp_small"
    by (simp add: round_up_evals fresh_sizes)
  have c2: "get_block_size (heap_imp imp_small) 0x1008 = round_up_imp 32
         \<or> 8 \<le> get_block_size (heap_imp imp_small) 0x1008 - round_up_imp 32
           \<and> 0x1008 + round_up_imp 32 + 8 < segment_end_imp imp_small"
    by (simp add: round_up_evals fresh_sizes)
  show ?thesis
    using malloc_split_policy [OF nz(1) nz(2) f(1) nz(5) fit(1) f(3) nz(5) fit(3) c1]
      malloc_split_policy [OF nz(3) nz(4) f(2) nz(5) fit(2) f(4) nz(5) fit(4) c2]
    by (simp add: round_up_evals fresh_sizes)
qed

text \<open>
  The claim as stated fails in the implicit variant: from a free block of 32 bytes a
  request of 16 leaves \<open>delta = 16 < 24\<close>, yet the block is split.
\<close>

theorem malloc_split_counterexample:
  "round_up_imp 16 = 16
   \<and> first_fit_imp imp_small 16 = 0x1008
   \<and> get_block_size (heap_imp imp_small) 0x1008 = 32
   \<and> (32 :: 64 word) - 16 < 24
   \<and> snd (mymalloc_imp imp_small 16) = 0x1008
   \<and> get_block_size (heap_imp (fst (mymalloc_imp imp_small 16))) 0x1008 \<noteq> 32
   \<and> nblocks_imp (fst (mymalloc_imp imp_small 16)) \<noteq> nblocks_imp imp_small"
  by (simp add: round_up_evals first_fit_evals fresh_sizes)
     (simp add: mymalloc_imp_def imp_small_eval imp_defs hdr_defs mem_simps)

section \<open>Shrinking in place\<close>

lemma seven_mask: "(7 :: 64 word) = mask 3"
  by (simp add: mask_eq_exp_minus_1)

lemma and_not_7: "x AND NOT 7 = x - take_bit 3 x" for x :: "64 word"
proof -
  have "x AND NOT 7 = push_bit 3 (drop_bit 3 x)"
    unfolding seven_mask by (rule bit_eqI) (auto simp: bit_simps)
  moreover have "push_bit 3 (drop_bit 3 x) + take_bit 3 x = x" by (rule bits_ident)
  ultimately show ?thesis by (simp add: algebra_simps)
qed

lemma unat_round_down: "unat (x AND NOT 7) = (unat x div 8) * 8" for x :: "64 word"
proof -
  have le: "take_bit 3 x \<le> x"
    by (simp add: take_bit_eq_mask word_and_le2)
  have "unat (take_bit 3 x) = unat x mod 8"
    by (simp add: take_bit_eq_mod unat_mod)
  then have "unat (x - take_bit 3 x) = unat x - unat x mod 8"
    using unat_sub[OF le] by simp
  then show ?thesis
    unfolding and_not_7 by (simp only: minus_mod_eq_div_mult)
qed

lemma round_up_exp_bounds:
  fixes m c :: "64 word"
  assumes "m \<le> c" "c < 2 ^ 62" "c AND 7 = 0" "16 \<le> c"
  shows "round_up_exp m \<le> c" and "m \<le> round_up_exp m"
proof -
  have um: "unat m \<le> unat c" using assms(1) by (simp add: word_le_nat_alt)
  have uc: "unat c < 2 ^ 62" using assms(2) by (simp add: word_less_nat_alt)
  have dv: "8 dvd unat c" using assms(3) and_mask_dvd_nat[of 3 c] by (simp add: seven_mask)
  have u7: "unat (m + 7) = unat m + 7"
    using um uc by (simp add: unat_add_lem[THEN iffD1])
  have ur: "unat ((m + 7) AND NOT 7) = ((unat m + 7) div 8) * 8"
    using unat_round_down[of "m + 7"] unfolding u7 .
  have a: "((unat m + 7) div 8) * 8 \<le> unat c" using um dv by (elim dvdE) simp
  have b: "unat m \<le> ((unat m + 7) div 8) * 8" by simp
  have c16: "(16::nat) \<le> unat c" using assms(4) by (simp add: word_le_nat_alt)
  have e1: "m + 8 - 1 = m + 7" and e2: "(8 :: 64 word) - 1 = 7" by simp_all
  have ru: "round_up_exp m = (if (m + 7) AND NOT 7 < 16 then 16 else (m + 7) AND NOT 7)"
    unfolding round_up_exp_def WIDTH_def Let_def e1 e2 by (rule refl)
  show "round_up_exp m \<le> c"
    unfolding ru using a c16 ur assms(4) by (simp only: word_le_nat_alt split: if_splits) simp
  show "m \<le> round_up_exp m"
    unfolding ru using b ur by (simp only: word_le_nat_alt word_less_nat_alt split: if_splits) simp

qed


lemma byte_after_hdr:
  fixes p i :: "64 word"
  assumes "i < 2 ^ 62"
  shows "\<not> p + i - (p - 8) < 8"
proof -
  have "unat i < 2 ^ 62" using assms by (simp add: word_less_nat_alt)
  then have "unat (i + 8) = unat i + 8" by (simp add: unat_add_lem[THEN iffD1])
  moreover have "p + i - (p - 8) = i + 8" by simp
  ultimately show ?thesis by (simp add: word_less_nat_alt)
qed

lemma byte_before:
  fixes p i r k :: "64 word"
  assumes "i < r" "r < 2 ^ 62" "k \<le> 16"
  shows "\<not> p + i - (p + r + k) < 8"
proof -
  have ui: "unat i < unat r" using assms(1) by (simp add: word_less_nat_alt)
  have ur: "unat r < 2 ^ 62" using assms(2) by (simp add: word_less_nat_alt)
  have uk: "unat k \<le> 16" using assms(3) by (simp add: word_le_nat_alt)
  have urk: "unat (r + k) = unat r + unat k"
    using ur uk by (simp add: unat_add_lem[THEN iffD1])
  have "unat (i - (r + k)) = unat i + 2 ^ 64 - unat (r + k)"
    using ui urk by (simp add: unat_sub_if_size word_size)
  then have 8: "8 \<le> unat (i - (r + k))" using ur uk urk by simp
  have e: "p + i - (p + r + k) = i - (r + k)" by simp
  show ?thesis unfolding e word_less_nat_alt using 8 by simp
qed

text \<open>Bytes outside the cell that a header or link write touches keep their value.\<close>

lemma byte_set_hdr:
  "\<not> x - get_hdr q < 8 \<Longrightarrow> set_hdr_size m q z x = m x"
  "\<not> x - get_hdr q < 8 \<Longrightarrow> set_hdr_status m q st x = m x"
  by (simp_all add: set_hdr_size_def set_hdr_status_def store64_other)

lemma byte_set_ptr:
  "(q \<noteq> 0 \<Longrightarrow> \<not> x - (get_hdr q + 8) < 8) \<Longrightarrow> set_prev_ptr m q v x = m x"
  "(q \<noteq> 0 \<Longrightarrow> \<not> x - (get_hdr q + 16) < 8) \<Longrightarrow> set_next_ptr m q v x = m x"
  by (simp_all add: set_prev_ptr_def set_next_ptr_def store64_other)

lemma byte_change_to_free:
  assumes "\<not> x - get_hdr nf < 8"
    and "nf \<noteq> 0 \<Longrightarrow> \<not> x - (get_hdr nf + 8) < 8"
    and "nf \<noteq> 0 \<Longrightarrow> \<not> x - (get_hdr nf + 16) < 8"
    and "last_free_block_exp s \<noteq> 0 \<Longrightarrow> \<not> x - (get_hdr (last_free_block_exp s) + 16) < 8"
  shows "heap_exp (change_to_free s nf) x = heap_exp s x"
  using assms by (simp add: change_to_free_def Let_def byte_set_hdr byte_set_ptr)

lemma realloc_shrink_split:
  assumes "p \<noteq> 0" "m \<noteq> 0" "round_up_exp m \<le> get_block_size (heap_exp s) p"
    and "24 \<le> get_block_size (heap_exp s) p - round_up_exp m"
  shows "myrealloc_exp s p m =
     Some ((change_to_free (s\<lparr>heap_exp := set_hdr_size (heap_exp s) p (round_up_exp m)\<rparr>)
              (p + round_up_exp m + 8))
             \<lparr>heap_exp := set_hdr_size
                (heap_exp (change_to_free
                   (s\<lparr>heap_exp := set_hdr_size (heap_exp s) p (round_up_exp m)\<rparr>)
                   (p + round_up_exp m + 8)))
                (p + round_up_exp m + 8)
                (get_block_size (heap_exp s) p - round_up_exp m - 8),
              nblocks_exp := nblocks_exp (change_to_free
                   (s\<lparr>heap_exp := set_hdr_size (heap_exp s) p (round_up_exp m)\<rparr>)
                   (p + round_up_exp m + 8)) + 1\<rparr>, p)"
  using assms by (simp add: myrealloc_exp_def Let_def sizeof_header_def WIDTH_def)

lemma realloc_shrink:
  assumes p: "p \<noteq> 0" and m: "m \<noteq> 0" "m \<le> get_block_size (heap_exp s) p"
    and wf: "16 \<le> get_block_size (heap_exp s) p" "get_block_size (heap_exp s) p AND 7 = 0"
    and al: "last_free_block_exp s = 0
             \<or> (\<forall>i<m. 8 \<le> p + i - (last_free_block_exp s + 8))"
  shows "\<exists>s'. myrealloc_exp s p m = Some (s', p)
           \<and> (\<forall>i<m. heap_exp s' (p + i) = heap_exp s (p + i))"
proof -
  define c where "c = get_block_size (heap_exp s) p"
  define r where "r = round_up_exp m"
  have clt: "c < 2 ^ 62" unfolding c_def by (rule get_block_size_lt)
  have rc: "r \<le> c" and mr: "m \<le> r"
    unfolding r_def using round_up_exp_bounds[OF m(2)[folded c_def] clt wf(2)[folded c_def] wf(1)[folded c_def]]
    by simp_all
  have rlt: "r < 2 ^ 62" using rc clt by (rule le_less_trans)
  show ?thesis
  proof (cases "24 \<le> c - r")
    case False
    then show ?thesis
      using p m(1) rc by (simp add: myrealloc_exp_def Let_def sizeof_header_def flip: c_def r_def)
  next
    case True
    note eq = realloc_shrink_split[OF p m(1) rc[unfolded r_def c_def] True[unfolded r_def c_def],
        folded r_def c_def]
    have "heap_exp (fst (the (myrealloc_exp s p m))) (p + i) = heap_exp s (p + i)"
      if i: "i < m" for i
    proof -
      have ir: "i < r" using i mr by simp
      have i62: "i < 2 ^ 62" using ir rlt by simp
      have b0: "\<not> p + i - get_hdr p < 8"
        using byte_after_hdr[OF i62, of p] by (simp add: get_hdr_def WIDTH_def)
      have b1: "\<not> p + i - get_hdr (p + r + 8) < 8"
        using byte_before[OF ir rlt, of 0 p] by (simp add: get_hdr_def WIDTH_def)
      have b2: "\<not> p + i - (get_hdr (p + r + 8) + 8) < 8"
        using byte_before[OF ir rlt, of 8 p] by (simp add: get_hdr_def WIDTH_def)
      have b3: "\<not> p + i - (get_hdr (p + r + 8) + 16) < 8"
        using byte_before[OF ir rlt, of 16 p] by (simp add: get_hdr_def WIDTH_def)
      have b4: "\<not> p + i - (get_hdr (last_free_block_exp s) + 16) < 8"
        if "last_free_block_exp s \<noteq> 0"
      proof -
        have e: "get_hdr (last_free_block_exp s) + 16 = last_free_block_exp s + 8"
          by (simp add: get_hdr_def WIDTH_def)
        from al that i have "8 \<le> p + i - (last_free_block_exp s + 8)" by blast
        then show ?thesis unfolding e by (simp only: not_less)
      qed
      have "heap_exp (change_to_free (s\<lparr>heap_exp := set_hdr_size (heap_exp s) p r\<rparr>)
              (p + r + 8)) (p + i) = set_hdr_size (heap_exp s) p r (p + i)"
        using byte_change_to_free[of "p + i" "p + r + 8"
            "s\<lparr>heap_exp := set_hdr_size (heap_exp s) p r\<rparr>"] b1 b2 b3 b4
        by simp
      then show ?thesis
        unfolding eq using b0 b1 by (simp add: byte_set_hdr)
    qed
    with eq show ?thesis by simp
  qed
qed


text \<open>
  C6, as amended. Explicit variant only, and for a non-zero size: for every allocated
  payload pointer \<open>p\<close> (payload size a multiple of 8 and at least 16, the link cell of the
  free-list tail not inside the first \<open>m\<close> payload bytes) and every requested size \<open>m\<close>
  with \<open>0 < m \<le> payload_size(p)\<close>, \<^verbatim>\<open>myrealloc(p, m)\<close> returns \<open>p\<close> and the first \<open>m\<close>
  bytes of the payload are unchanged. (Size 0 frees \<open>p\<close> and returns null; the implicit
  variant always allocates a new block, copies and frees the old one.)
\<close>

theorem shrink_realloc_stability:
  assumes "p \<noteq> 0" and "m \<noteq> 0" and "m \<le> get_block_size (heap_exp s) p"
    and "16 \<le> get_block_size (heap_exp s) p" and "get_block_size (heap_exp s) p AND 7 = 0"
    and "last_free_block_exp s = 0
         \<or> (\<forall>i<m. 8 \<le> p + i - (last_free_block_exp s + 8))"
  shows "\<exists>s'. myrealloc_exp s p m = Some (s', p)
           \<and> (\<forall>i<m. heap_exp s' (p + i) = heap_exp s (p + i))"
  using assms by (rule realloc_shrink)

theorem shrink_realloc_stability_witness:
  "(0x1008 :: addr) \<noteq> 0 \<and> (32 :: 64 word) \<noteq> 0
   \<and> 32 \<le> get_block_size (heap_exp (fst exp_m100)) 0x1008
   \<and> 16 \<le> get_block_size (heap_exp (fst exp_m100)) 0x1008
   \<and> get_block_size (heap_exp (fst exp_m100)) 0x1008 AND 7 = 0
   \<and> exp_r32 \<noteq> None \<and> snd (the exp_r32) = 0x1008
   \<and> heap_exp (fst (the exp_r32)) 0x1008 = heap_exp (fst exp_m100) 0x1008
   \<and> heap_exp (fst (the exp_r32)) 0x1027 = heap_exp (fst exp_m100) 0x1027"
proof -
  have sz: "get_block_size (heap_exp (fst exp_m100)) 0x1008 = 104"
    by (simp add: exp_m100_eval hdr_defs mem_simps)
  have lf: "last_free_block_exp (fst exp_m100) = 0x1078" and p: "snd exp_m100 = 0x1008"
    by (simp_all add: exp_m100_eval)
  have h1: "(0x1008 :: addr) \<noteq> 0" and h2: "(32 :: 64 word) \<noteq> 0" by simp_all
  have h3: "32 \<le> get_block_size (heap_exp (fst exp_m100)) 0x1008"
    and h4: "16 \<le> get_block_size (heap_exp (fst exp_m100)) 0x1008"
    and h5: "get_block_size (heap_exp (fst exp_m100)) 0x1008 AND 7 = 0"
    by (simp_all add: sz)
  have "8 \<le> 0x1008 + i - (0x1078 + 8)" if "i < 32" for i :: "64 word"
  proof -
    from that have "i < 112" by (rule less_trans) simp
    from byte_before[OF this, of 8 "0x1008"] show ?thesis by (simp add: not_less)
  qed
  then have h6: "last_free_block_exp (fst exp_m100) = 0
         \<or> (\<forall>i<32. 8 \<le> 0x1008 + i - (last_free_block_exp (fst exp_m100) + 8))"
    unfolding lf by blast
  from shrink_realloc_stability [OF h1 h2 h3 h4 h5 h6]
  obtain s' where s': "myrealloc_exp (fst exp_m100) 0x1008 32 = Some (s', 0x1008)"
    and b: "\<forall>i<32. heap_exp s' (0x1008 + i) = heap_exp (fst exp_m100) (0x1008 + i)"
    by blast
  have r: "exp_r32 = Some (s', 0x1008)" using s' by (simp add: exp_r32_def p)
  have "heap_exp s' (0x1008 + 0) = heap_exp (fst exp_m100) (0x1008 + 0)"
    "heap_exp s' (0x1008 + 31) = heap_exp (fst exp_m100) (0x1008 + 31)"
    using b[rule_format, of 0] b[rule_format, of 31] by simp_all
  then show ?thesis unfolding r using h1 h2 h3 h4 h5 by simp
qed

lemma first_fit_loop_imp_numeral:
  "first_fit_loop_imp s req_size curr_block (numeral k) =
     (if req_size \<le> get_block_size (heap_imp s) curr_block
         \<and> check_alloc (heap_imp s) curr_block = 0
      then curr_block
      else first_fit_loop_imp s req_size (get_next_block_imp s curr_block) (pred_numeral k))"
  by (simp add: numeral_eq_Suc)

lemma first_fit_loop_exp_numeral:
  "first_fit_loop_exp m req_size curr_block (numeral k) =
     (if req_size \<le> get_block_size m curr_block \<and> check_alloc m curr_block = 0
      then curr_block
      else first_fit_loop_exp m req_size (get_prev_free m curr_block) (pred_numeral k))"
  by (simp add: numeral_eq_Suc)

lemmas loop_numeral = first_fit_loop_imp_numeral first_fit_loop_exp_numeral

lemma imp_m16_eval:
  "imp_m16 = (\<lparr>heap_imp = store64 (store64 zero_mem 0x1000 65) 0x1018 16256,
     segment_start_imp = 0x1000, segment_end_imp = 0x2000, segment_size_imp = 4096,
     nblocks_imp = 2, nused_imp = 1, bytes_used_imp = 24, start_block_imp = 0x1008\<rparr>, 0x1008)"
  by (simp add: imp_m16_def mymalloc_imp_def imp_fresh_eval imp_defs hdr_defs mem_simps)

text \<open>
  The claim as stated fails twice: the implicit \<^verbatim>\<open>myrealloc\<close> moves a 16-byte block
  asked to shrink to 8, and the explicit one returns null for size 0.
\<close>

theorem shrink_realloc_counterexample:
  "check_alloc (heap_imp (fst imp_m16)) (snd imp_m16) = 1
   \<and> (8 :: 64 word) \<le> get_block_size (heap_imp (fst imp_m16)) (snd imp_m16)
   \<and> snd (myrealloc_imp (fst imp_m16) (snd imp_m16) 8) \<noteq> snd imp_m16
   \<and> check_alloc (heap_exp (fst exp_m100)) (snd exp_m100) = 1
   \<and> (0 :: 64 word) \<le> get_block_size (heap_exp (fst exp_m100)) (snd exp_m100)
   \<and> myrealloc_exp (fst exp_m100) (snd exp_m100) 0
       = Some (myfree_exp (fst exp_m100) (snd exp_m100), 0)
   \<and> snd exp_m100 \<noteq> 0"
  by (simp add: imp_m16_eval exp_m100_eval)
     (simp add: myrealloc_imp_def myrealloc_exp_def mymalloc_imp_def imp_defs hdr_defs mem_simps
        loop_numeral)

section \<open>What free merges\<close>

lemma apart_words:
  fixes j k :: "64 word"
  assumes "unat k + 8 \<le> unat j" "unat j + 8 \<le> 2 ^ 64 + unat k"
  shows "apart (p + j) (p + k)" and "apart (p + k) (p + j)"
  using assms unfolding apart_offsets by (simp_all add: apart_nat)

lemma free_no_merge:
  assumes p: "p \<noteq> 0"
    and q: "check_alloc (heap_exp s) (get_next_block_exp (heap_exp s) p) \<noteq> 0"
    and sz: "16 \<le> get_block_size (heap_exp s) p"
    and al: "last_free_block_exp s = 0
             \<or> apart (next_cell (last_free_block_exp s)) (get_hdr p)
               \<and> apart (next_cell (last_free_block_exp s))
                   (get_hdr (get_next_block_exp (heap_exp s) p))"
  shows "check_alloc (heap_exp (myfree_exp s p)) p = 0"
    and "get_block_size (heap_exp (myfree_exp s p)) p = get_block_size (heap_exp s) p"
    and "get_next_block_exp (heap_exp (myfree_exp s p)) p = get_next_block_exp (heap_exp s) p"
    and "check_alloc (heap_exp (myfree_exp s p)) (get_next_block_exp (heap_exp s) p)
         = check_alloc (heap_exp s) (get_next_block_exp (heap_exp s) p)"
    and "nblocks_exp (myfree_exp s p) = nblocks_exp s"
    and "nused_exp (myfree_exp s p) = nused_exp s - 1"
    and "last_free_block_exp (myfree_exp s p) = p"
proof -
  define m where "m = heap_exp s"
  define c where "c = get_block_size m p"
  define q where "q = get_next_block_exp m p"
  define lf where "lf = last_free_block_exp s"
  have clt: "c < 2 ^ 62" unfolding c_def by (rule get_block_size_lt)
  have uc: "unat c < 2 ^ 62" "16 \<le> unat c"
    using clt sz by (simp_all add: word_less_nat_alt word_le_nat_alt c_def m_def)
  have hq: "get_hdr q = p + c" and hp: "get_hdr p = p - 8"
    by (simp_all add: q_def get_next_block_exp_def get_hdr_def WIDTH_def c_def)
  have f: "myfree_exp s p = (change_to_free s p)\<lparr>nused_exp := nused_exp s - 1\<rparr>"
    using p q by (simp add: myfree_exp_def change_to_free_def Let_def)
  have a1: "apart (get_hdr p) (get_hdr p + 8)" "apart (get_hdr p) (get_hdr p + 16)"
    by (simp_all add: apart_def)
  have a2: "apart (get_hdr q) (get_hdr p)" unfolding hq hp using clt by (rule apart_hdr)
  have e: "p - 8 + 8 = p + 0" "p - 8 + 16 = p + 8" by simp_all
  have a3: "apart (get_hdr q) (get_hdr p + 8)" "apart (get_hdr q) (get_hdr p + 16)"
    unfolding hq hp e by (rule apart_words(1); use uc in simp)+
  have a4: "apart (get_hdr p) (get_hdr lf + 16)" "apart (get_hdr q) (get_hdr lf + 16)"
    if "lf \<noteq> 0"
    using al that unfolding lf_def q_def m_def next_cell_def by (auto intro: apart_sym)
  have h: "heap_exp (myfree_exp s p) =
      set_next_ptr (set_prev_ptr (set_next_ptr (set_hdr_status m p FREE) lf p) p lf) p 0"
    unfolding f by (simp add: change_to_free_def Let_def m_def lf_def)
  have 1: "check_alloc (heap_exp (myfree_exp s p)) p = 0"
    and 2: "get_block_size (heap_exp (myfree_exp s p)) p = c"
    and 3: "check_alloc (heap_exp (myfree_exp s p)) q = check_alloc m q"
    unfolding h using p a1 a2 a3 a4
    by (simp_all add: set_next_ptr_def set_prev_ptr_def c_def)
  show "check_alloc (heap_exp (myfree_exp s p)) p = 0" by (rule 1)
  show "get_block_size (heap_exp (myfree_exp s p)) p = get_block_size (heap_exp s) p"
    using 2 by (simp add: c_def m_def)
  show "get_next_block_exp (heap_exp (myfree_exp s p)) p = get_next_block_exp (heap_exp s) p"
    using 2 by (simp add: get_next_block_exp_def c_def m_def)
  show "check_alloc (heap_exp (myfree_exp s p)) (get_next_block_exp (heap_exp s) p)
         = check_alloc (heap_exp s) (get_next_block_exp (heap_exp s) p)"
    using 3 by (simp add: q_def m_def)
  show "nblocks_exp (myfree_exp s p) = nblocks_exp s"
    "nused_exp (myfree_exp s p) = nused_exp s - 1"
    "last_free_block_exp (myfree_exp s p) = p"
    unfolding f by (simp_all add: change_to_free_def Let_def)
qed

lemma free_merge:
  assumes p: "p \<noteq> 0"
    and q: "check_alloc (heap_exp s) (get_next_block_exp (heap_exp s) p) = 0"
    and sz: "16 \<le> get_block_size (heap_exp s) p"
    and sm: "unat (get_block_size (heap_exp s) p)
             + unat (get_block_size (heap_exp s) (get_next_block_exp (heap_exp s) p)) + 8
             < 2 ^ 62"
    and an: "get_next_free (heap_exp s) (get_next_block_exp (heap_exp s) p) = 0
             \<or> apart (prev_cell (get_next_free (heap_exp s) (get_next_block_exp (heap_exp s) p)))
                   (get_hdr p)
               \<and> apart (prev_cell (get_next_free (heap_exp s) (get_next_block_exp (heap_exp s) p)))
                   (get_hdr (get_next_block_exp (heap_exp s) (get_next_block_exp (heap_exp s) p)))"
    and ap: "get_prev_free (heap_exp s) (get_next_block_exp (heap_exp s) p) = 0
             \<or> apart (next_cell (get_prev_free (heap_exp s) (get_next_block_exp (heap_exp s) p)))
                   (get_hdr p)
               \<and> apart (next_cell (get_prev_free (heap_exp s) (get_next_block_exp (heap_exp s) p)))
                   (get_hdr (get_next_block_exp (heap_exp s) (get_next_block_exp (heap_exp s) p)))"
  shows "check_alloc (heap_exp (myfree_exp s p)) p = 0"
    and "get_block_size (heap_exp (myfree_exp s p)) p
         = get_block_size (heap_exp s) p
           + get_block_size (heap_exp s) (get_next_block_exp (heap_exp s) p) + 8"
    and "get_next_block_exp (heap_exp (myfree_exp s p)) p
         = get_next_block_exp (heap_exp s) (get_next_block_exp (heap_exp s) p)"
    and "check_alloc (heap_exp (myfree_exp s p))
           (get_next_block_exp (heap_exp s) (get_next_block_exp (heap_exp s) p))
         = check_alloc (heap_exp s)
             (get_next_block_exp (heap_exp s) (get_next_block_exp (heap_exp s) p))"
    and "nblocks_exp (myfree_exp s p) = nblocks_exp s - 1"
    and "nused_exp (myfree_exp s p) = nused_exp s - 1"
proof -
  define m where "m = heap_exp s"
  define c where "c = get_block_size m p"
  define q where "q = get_next_block_exp m p"
  define d where "d = get_block_size m q"
  define r where "r = get_next_block_exp m q"
  define nn where "nn = get_next_free m q"
  define np where "np = get_prev_free m q"
  have clt: "c < 2 ^ 62" unfolding c_def by (rule get_block_size_lt)
  have uc: "unat c < 2 ^ 62" "16 \<le> unat c"
    using clt sz by (simp_all add: word_less_nat_alt word_le_nat_alt c_def m_def)
  have us: "unat c + unat d + 8 < 2 ^ 62" using sm by (simp add: c_def d_def q_def m_def)
  have ucd: "unat (c + d) = unat c + unat d"
    using us by (simp add: unat_add_lem[THEN iffD1])
  have ucd8: "unat (c + d + 8) = unat c + unat d + 8"
    using us ucd by (simp add: unat_add_lem[THEN iffD1])
  have t: "take_bit 62 (c + d + 8) = c + d + 8"
    by (rule take_bit_62_small) (use us ucd8 in \<open>simp add: word_less_nat_alt\<close>)
  have hp: "get_hdr p = p - 8" and hq: "get_hdr q = p + c"
    and hr: "get_hdr r = p + (c + d + 8)"
    by (simp_all add: r_def q_def get_next_block_exp_def get_hdr_def WIDTH_def c_def d_def)
  have e: "p - 8 + 8 = p + 0" "p - 8 + 16 = p + 8" by simp_all
  have a1: "apart (get_hdr p) (get_hdr p + 8)" "apart (get_hdr p) (get_hdr p + 16)"
    by (simp_all add: apart_def)
  have a2: "apart (get_hdr q) (get_hdr p)" unfolding hq hp using clt by (rule apart_hdr)
  have a3: "apart (get_hdr r) (get_hdr p)"
    unfolding hr hp by (rule apart_hdr) (use us ucd8 in \<open>simp add: word_less_nat_alt\<close>)
  have a4: "apart (get_hdr r) (get_hdr p + 8)" "apart (get_hdr r) (get_hdr p + 16)"
    unfolding hr hp e by (rule apart_words(1); use us ucd8 uc in simp)+
  have a5: "apart (get_hdr p) (get_hdr nn + 8)" "apart (get_hdr r) (get_hdr nn + 8)"
    if "nn \<noteq> 0"
    using an that unfolding nn_def r_def q_def m_def prev_cell_def by (auto intro: apart_sym)
  have a6: "apart (get_hdr p) (get_hdr np + 16)" "apart (get_hdr r) (get_hdr np + 16)"
    if "np \<noteq> 0"
    using ap that unfolding np_def r_def q_def m_def next_cell_def by (auto intro: apart_sym)
  have f: "myfree_exp s p = (coalesce s p)\<lparr>nblocks_exp := nblocks_exp (coalesce s p) - 1,
      nused_exp := nused_exp (coalesce s p) - 1\<rparr>"
    using p q by (simp add: myfree_exp_def Let_def)
  have m1: "get_block_size (set_hdr_status m p FREE) p = c"
    "get_block_size (set_hdr_status m p FREE) q = d"
    using a2 by (simp_all add: c_def d_def)
  have h: "heap_exp (myfree_exp s p) =
      set_next_ptr (set_prev_ptr (set_next_ptr (set_prev_ptr
        (set_hdr_size (set_hdr_status m p FREE) p (c + d + 8)) p np) p nn) nn p) np p"
    unfolding f using m1
    by (simp add: coalesce_def Let_def upd_last_free_block_def WIDTH_def
        flip: m_def q_def nn_def np_def)
  have 1: "check_alloc (heap_exp (myfree_exp s p)) p = 0"
    and 2: "get_block_size (heap_exp (myfree_exp s p)) p = c + d + 8"
    and 3: "check_alloc (heap_exp (myfree_exp s p)) r = check_alloc m r"
    unfolding h using p a1 a3 a4 a5 a6 t
    by (simp_all add: set_next_ptr_def set_prev_ptr_def)
  show "check_alloc (heap_exp (myfree_exp s p)) p = 0" by (rule 1)
  show "get_block_size (heap_exp (myfree_exp s p)) p
         = get_block_size (heap_exp s) p
           + get_block_size (heap_exp s) (get_next_block_exp (heap_exp s) p) + 8"
    using 2 by (simp add: c_def d_def q_def m_def)
  show "get_next_block_exp (heap_exp (myfree_exp s p)) p
         = get_next_block_exp (heap_exp s) (get_next_block_exp (heap_exp s) p)"
    unfolding get_next_block_exp_def[of "heap_exp (myfree_exp s p)"] 2
    by (simp add: get_next_block_exp_def c_def d_def q_def m_def WIDTH_def)
  show "check_alloc (heap_exp (myfree_exp s p))
           (get_next_block_exp (heap_exp s) (get_next_block_exp (heap_exp s) p))
         = check_alloc (heap_exp s)
             (get_next_block_exp (heap_exp s) (get_next_block_exp (heap_exp s) p))"
    using 3 by (simp add: r_def q_def m_def)
  show "nblocks_exp (myfree_exp s p) = nblocks_exp s - 1"
    "nused_exp (myfree_exp s p) = nused_exp s - 1"
    unfolding f by (simp_all add: coalesce_def Let_def upd_last_free_block_def)
qed

lemmas exp_eval_simps = mymalloc_exp_def myfree_exp_def exp_defs hdr_defs mem_simps loop_numeral

lemma exp_a24_eval:
  "exp_a24 = (\<lparr>heap_exp = store64 (store64 (store64 (store64 (store64 (store64
     (store64 zero_mem 4096 16352) 4104 0) 4112 0) 4128 16224) 4136 0) 4144 0) 4096 97,
     segment_start_exp = 4096, segment_size_exp = 4096, start_block_exp = 4104, nblocks_exp
     = 2, nused_exp = 1, last_free_block_exp = 4136\<rparr>, 4104)"
  by (simp add: exp_a24_def exp_fresh_eval exp_eval_simps)

lemma exp_b32_eval:
  "exp_b32 = (\<lparr>heap_exp = store64 (store64 (store64 (store64 (store64 (store64
     (store64 (store64 (store64 (store64 (store64 zero_mem 4096 16352) 4104 0) 4112 0) 4128
     16224) 4136 0) 4144 0) 4096 97) 4168 16064) 4176 0) 4184 0) 4128 129,
     segment_start_exp = 4096, segment_size_exp = 4096, start_block_exp = 4104, nblocks_exp
     = 3, nused_exp = 2, last_free_block_exp = 4176\<rparr>, 4136)"
  by (simp add: exp_b32_def exp_a24_eval exp_eval_simps)

lemma exp_fa_eval:
  "exp_fa = \<lparr>heap_exp = store64 (store64 (store64 (store64 (store64 (store64
     (store64 (store64 (store64 (store64 (store64 (store64 (store64 (store64 (store64
     zero_mem 4096 16352) 4104 0) 4112 0) 4128 16224) 4136 0) 4144 0) 4096 97) 4168 16064)
     4176 0) 4184 0) 4128 129) 4096 96) 4184 4104) 4104 4176) 4112 0, segment_start_exp =
     4096, segment_size_exp = 4096, start_block_exp = 4104, nblocks_exp = 3, nused_exp = 1,
     last_free_block_exp = 4104\<rparr>"
  by (simp add: exp_fa_def exp_b32_eval exp_a24_eval exp_eval_simps)

lemma exp_fb_eval:
  "exp_fb = \<lparr>heap_exp = store64 (store64 (store64 (store64 (store64 (store64
     (store64 (store64 (store64 (store64 (store64 (store64 (store64 (store64 (store64
     (store64 (store64 (store64 (store64 zero_mem 4096 16352) 4104 0) 4112 0) 4128 16224)
     4136 0) 4144 0) 4096 97) 4168 16064) 4176 0) 4184 0) 4128 129) 4096 96) 4184 4104)
     4104 4176) 4112 0) 4128 16224) 4136 0) 4144 4104) 4104 4136, segment_start_exp = 4096,
     segment_size_exp = 4096, start_block_exp = 4104, nblocks_exp = 2, nused_exp = 0,
     last_free_block_exp = 4104\<rparr>"
  by (simp add: exp_fb_def exp_fa_eval exp_b32_eval exp_eval_simps)

lemma exp_c16_eval:
  "exp_c16 = (\<lparr>heap_exp = store64 (store64 (store64 (store64 (store64 (store64
     (store64 (store64 (store64 (store64 (store64 (store64 (store64 (store64 (store64
     zero_mem 4096 16352) 4104 0) 4112 0) 4128 16224) 4136 0) 4144 0) 4096 97) 4168 16064)
     4176 0) 4184 0) 4128 129) 4192 15968) 4200 0) 4208 0) 4168 65, segment_start_exp =
     4096, segment_size_exp = 4096, start_block_exp = 4104, nblocks_exp = 4, nused_exp = 3,
     last_free_block_exp = 4200\<rparr>, 4176)"
  by (simp add: exp_c16_def exp_b32_eval exp_eval_simps)

lemma exp_c_fb_eval:
  "exp_c_fb = \<lparr>heap_exp = store64 (store64 (store64 (store64 (store64 (store64
     (store64 (store64 (store64 (store64 (store64 (store64 (store64 (store64 (store64
     (store64 (store64 (store64 (store64 zero_mem 4096 16352) 4104 0) 4112 0) 4128 16224)
     4136 0) 4144 0) 4096 97) 4168 16064) 4176 0) 4184 0) 4128 129) 4192 15968) 4200 0)
     4208 0) 4168 65) 4128 128) 4208 4136) 4136 4200) 4144 0, segment_start_exp = 4096,
     segment_size_exp = 4096, start_block_exp = 4104, nblocks_exp = 4, nused_exp = 2,
     last_free_block_exp = 4136\<rparr>"
  by (simp add: exp_c_fb_def exp_c16_eval exp_b32_eval exp_eval_simps)

lemma exp_c_fa_eval:
  "exp_c_fa = \<lparr>heap_exp = store64 (store64 (store64 (store64 (store64 (store64
     (store64 (store64 (store64 (store64 (store64 (store64 (store64 (store64 (store64
     (store64 (store64 (store64 (store64 (store64 (store64 (store64 (store64 zero_mem 4096
     16352) 4104 0) 4112 0) 4128 16224) 4136 0) 4144 0) 4096 97) 4168 16064) 4176 0) 4184
     0) 4128 129) 4192 15968) 4200 0) 4208 0) 4168 65) 4128 128) 4208 4136) 4136 4200) 4144
     0) 4096 256) 4104 4200) 4112 0) 4208 4104, segment_start_exp = 4096, segment_size_exp
     = 4096, start_block_exp = 4104, nblocks_exp = 3, nused_exp = 1, last_free_block_exp =
     4104\<rparr>"
  by (simp add: exp_c_fa_def exp_c_fb_eval exp_a24_eval exp_eval_simps)

lemma walk_numeral:
  "walk m p (numeral k) = p # walk m (get_next_block_exp m p) (pred_numeral k)"
  by (simp add: numeral_eq_Suc)

text \<open>
  C3, as amended. Explicit variant. \<^verbatim>\<open>myfree(p)\<close> looks at one block only, the immediate
  address-order successor \<open>q\<close> of \<open>p\<close>, and after it returns \<open>p\<close> is free. If \<open>q\<close> was
  allocated nothing is merged: \<open>p\<close> keeps its size, becomes the free-list tail, and its
  successor is still the allocated \<open>q\<close>. If \<open>q\<close> was free, exactly \<open>q\<close> is merged into \<open>p\<close>:
  the payload of \<open>p\<close> grows by 8 plus the payload of \<open>q\<close>, the block count drops by one,
  and the successor of \<open>p\<close> is now the old successor \<open>r\<close> of \<open>q\<close>, with the status it had.
  So after \<^verbatim>\<open>myfree(p)\<close> the block \<open>p\<close> and its successor are both free only if \<open>q\<close> and
  \<open>r\<close> were both free before the call; the block to the left of \<open>p\<close> is never looked at,
  and a free block there stays next to the free \<open>p\<close>.
\<close>

theorem free_right_coalescing:
  assumes "p \<noteq> 0"
    and "16 \<le> get_block_size (heap_exp s) p"
    and "unat (get_block_size (heap_exp s) p)
         + unat (get_block_size (heap_exp s) (get_next_block_exp (heap_exp s) p)) + 8
         < 2 ^ 62"
    and "free_writes_clear s p"
  shows "check_alloc (heap_exp (myfree_exp s p)) p = 0
    \<and> nused_exp (myfree_exp s p) = nused_exp s - 1
    \<and> (if check_alloc (heap_exp s) (get_next_block_exp (heap_exp s) p) = 0
       then get_block_size (heap_exp (myfree_exp s p)) p
              = get_block_size (heap_exp s) p
                + get_block_size (heap_exp s) (get_next_block_exp (heap_exp s) p) + 8
          \<and> get_next_block_exp (heap_exp (myfree_exp s p)) p
              = get_next_block_exp (heap_exp s) (get_next_block_exp (heap_exp s) p)
          \<and> check_alloc (heap_exp (myfree_exp s p))
                (get_next_block_exp (heap_exp (myfree_exp s p)) p)
              = check_alloc (heap_exp s)
                  (get_next_block_exp (heap_exp s) (get_next_block_exp (heap_exp s) p))
          \<and> nblocks_exp (myfree_exp s p) = nblocks_exp s - 1
       else get_block_size (heap_exp (myfree_exp s p)) p = get_block_size (heap_exp s) p
          \<and> get_next_block_exp (heap_exp (myfree_exp s p)) p
              = get_next_block_exp (heap_exp s) p
          \<and> check_alloc (heap_exp (myfree_exp s p))
                (get_next_block_exp (heap_exp (myfree_exp s p)) p) \<noteq> 0
          \<and> nblocks_exp (myfree_exp s p) = nblocks_exp s
          \<and> last_free_block_exp (myfree_exp s p) = p)"
proof (cases "check_alloc (heap_exp s) (get_next_block_exp (heap_exp s) p) = 0")
  case True
  have an: "get_next_free (heap_exp s) (get_next_block_exp (heap_exp s) p) = 0
             \<or> apart (prev_cell (get_next_free (heap_exp s) (get_next_block_exp (heap_exp s) p)))
                   (get_hdr p)
               \<and> apart (prev_cell (get_next_free (heap_exp s) (get_next_block_exp (heap_exp s) p)))
                   (get_hdr (get_next_block_exp (heap_exp s) (get_next_block_exp (heap_exp s) p)))"
    and ap: "get_prev_free (heap_exp s) (get_next_block_exp (heap_exp s) p) = 0
             \<or> apart (next_cell (get_prev_free (heap_exp s) (get_next_block_exp (heap_exp s) p)))
                   (get_hdr p)
               \<and> apart (next_cell (get_prev_free (heap_exp s) (get_next_block_exp (heap_exp s) p)))
                   (get_hdr (get_next_block_exp (heap_exp s) (get_next_block_exp (heap_exp s) p)))"
    using assms(4) True by (simp_all add: free_writes_clear_def Let_def)
  note f = free_merge[OF assms(1) True assms(2) assms(3) an ap]
  show ?thesis using True f by simp
next
  case False
  have al: "last_free_block_exp s = 0
             \<or> apart (next_cell (last_free_block_exp s)) (get_hdr p)
               \<and> apart (next_cell (last_free_block_exp s))
                   (get_hdr (get_next_block_exp (heap_exp s) p))"
    using assms(4) False by (simp add: free_writes_clear_def Let_def)
  note f = free_no_merge[OF assms(1) False assms(2) al]
  show ?thesis using False f by simp
qed

text \<open>
  The claim as stated fails: after \<^verbatim>\<open>a = mymalloc(24); b = mymalloc(32); myfree(a);
  myfree(b)\<close> the heap has two blocks, \<open>a\<close> and the merged \<open>b\<close>, both free and adjacent.
\<close>

theorem free_right_coalescing_counterexample:
  "heap_blocks_exp exp_fb = [0x1008, 0x1028]
   \<and> check_alloc (heap_exp exp_fb) 0x1008 = 0
   \<and> check_alloc (heap_exp exp_fb) 0x1028 = 0
   \<and> \<not> right_coalesced exp_fb"
  by (simp add: right_coalesced_def heap_blocks_exp_def exp_fb_eval walk_numeral
      get_next_block_exp_def hdr_defs mem_simps)

theorem free_right_coalescing_witness:
  "check_alloc (heap_exp exp_c_fb) 0x1028 = 0
   \<and> get_block_size (heap_exp exp_c_fb) 0x1028 = 32
   \<and> get_next_block_exp (heap_exp exp_c_fb) 0x1028 = 0x1050
   \<and> check_alloc (heap_exp exp_c_fb) 0x1050 \<noteq> 0
   \<and> check_alloc (heap_exp exp_c_fa) 0x1008 = 0
   \<and> get_block_size (heap_exp exp_c_fa) 0x1008 = 64
   \<and> get_next_block_exp (heap_exp exp_c_fa) 0x1008 = 0x1050
   \<and> check_alloc (heap_exp exp_c_fa) 0x1050 = 1
   \<and> nblocks_exp exp_c_fa = 3"
proof -
  have pa: "snd exp_a24 = 0x1008" and pb: "snd exp_b32 = 0x1028"
    by (simp_all add: exp_a24_eval exp_b32_eval)
  have nz: "(0x1028 :: addr) \<noteq> 0" "(0x1008 :: addr) \<noteq> 0" by simp_all
  have b1: "16 \<le> get_block_size (heap_exp (fst exp_c16)) 0x1028"
    and b2: "unat (get_block_size (heap_exp (fst exp_c16)) 0x1028)
         + unat (get_block_size (heap_exp (fst exp_c16))
                  (get_next_block_exp (heap_exp (fst exp_c16)) 0x1028)) + 8 < 2 ^ 62"
    and b3: "free_writes_clear (fst exp_c16) 0x1028"
    and b4: "check_alloc (heap_exp (fst exp_c16))
               (get_next_block_exp (heap_exp (fst exp_c16)) 0x1028) = 1"
    by (simp_all add: free_writes_clear_def prev_cell_def next_cell_def exp_c16_eval
        get_next_block_exp_def get_next_free_def get_prev_free_def hdr_defs mem_simps)
  have a1: "16 \<le> get_block_size (heap_exp exp_c_fb) 0x1008"
    and a2: "unat (get_block_size (heap_exp exp_c_fb) 0x1008)
         + unat (get_block_size (heap_exp exp_c_fb)
                  (get_next_block_exp (heap_exp exp_c_fb) 0x1008)) + 8 < 2 ^ 62"
    and a3: "free_writes_clear exp_c_fb 0x1008"
    and a4: "check_alloc (heap_exp exp_c_fb)
               (get_next_block_exp (heap_exp exp_c_fb) 0x1008) = 0"
    and a5: "check_alloc (heap_exp exp_c_fb)
               (get_next_block_exp (heap_exp exp_c_fb)
                 (get_next_block_exp (heap_exp exp_c_fb) 0x1008)) = 1"
    and a6: "get_next_block_exp (heap_exp exp_c_fb)
                 (get_next_block_exp (heap_exp exp_c_fb) 0x1008) = 0x1050"
    and a7: "get_block_size (heap_exp exp_c_fb) 0x1008
             + get_block_size (heap_exp exp_c_fb)
                 (get_next_block_exp (heap_exp exp_c_fb) 0x1008) + 8 = 64"
    and a8: "nblocks_exp exp_c_fb = 4"
    by (simp_all add: free_writes_clear_def prev_cell_def next_cell_def exp_c_fb_eval
        get_next_block_exp_def get_next_free_def get_prev_free_def hdr_defs mem_simps)
  have b5: "get_block_size (heap_exp (fst exp_c16)) 0x1028 = 32"
    "get_next_block_exp (heap_exp (fst exp_c16)) 0x1028 = 0x1050"
    by (simp_all add: exp_c16_eval get_next_block_exp_def hdr_defs mem_simps)
  have fb: "myfree_exp (fst exp_c16) 0x1028 = exp_c_fb" by (simp add: exp_c_fb_def pb)
  have fa: "myfree_exp exp_c_fb 0x1008 = exp_c_fa" by (simp add: exp_c_fa_def pa)
  have c: "get_block_size (heap_exp (fst exp_c16)) 0x1028 = 32"
    "get_next_block_exp (heap_exp (fst exp_c16)) 0x1028 = 0x1050"
    "check_alloc (heap_exp (fst exp_c16)) 0x1050 = 1"
    "nblocks_exp (fst exp_c16) = 4"
    by (simp_all add: exp_c16_eval get_next_block_exp_def hdr_defs mem_simps)
  have d: "get_block_size (heap_exp exp_c_fb) 0x1008 = 24"
    "get_next_block_exp (heap_exp exp_c_fb) 0x1008 = 0x1028"
    "check_alloc (heap_exp exp_c_fb) 0x1028 = 0"
    "get_block_size (heap_exp exp_c_fb) 0x1028 = 32"
    "get_next_block_exp (heap_exp exp_c_fb) 0x1028 = 0x1050"
    "check_alloc (heap_exp exp_c_fb) 0x1050 = 1"
    "nblocks_exp exp_c_fb = 4"
    by (simp_all add: exp_c_fb_eval get_next_block_exp_def hdr_defs mem_simps)
  show ?thesis
    using free_right_coalescing [OF nz(1) b1 b2 b3] free_right_coalescing [OF nz(2) a1 a2 a3]
    unfolding fb fa by (auto simp: c d)
qed

section \<open>Freeing the last block of the region\<close>

lemma exp_full_eval:
  "exp_full = (\<lparr>heap_exp = store64 (store64 (store64 (store64 zero_mem 4096 16352)
     4104 0) 4112 0) 4096 16353, segment_start_exp = 4096, segment_size_exp = 4096,
     start_block_exp = 4104, nblocks_exp = 1, nused_exp = 1, last_free_block_exp =
     0\<rparr>, 4104)"
  by (simp add: exp_full_def exp_fresh_eval exp_eval_simps)

lemma exp_lost_eval:
  "exp_lost = \<lparr>heap_exp = store64 (store64 (store64 (store64 (store64 (store64
     zero_mem 4096 16352) 4104 0) 4112 0) 4096 16384) 4104 0) 4112 0, segment_start_exp =
     4096, segment_size_exp = 4096, start_block_exp = 4104, nblocks_exp = 0, nused_exp = 0,
     last_free_block_exp = 0\<rparr>"
  by (simp add: exp_lost_def exp_full_eval exp_eval_simps)

lemma region_walk_numeral:
  "region_walk m region_end p (numeral k) =
     (if get_hdr p < region_end
      then p # region_walk m region_end (get_next_block_exp m p) (pred_numeral k)
      else [])"
  by (simp add: numeral_eq_Suc)

lemma validate_walk_numeral:
  "validate_walk m curr_block (numeral k) used_bytes free_bytes free_count =
     (let block_width_size = get_block_size m curr_block + WIDTH
      in if check_alloc m curr_block \<noteq> 0 then
           validate_walk m (get_next_block_exp m curr_block) (pred_numeral k)
             (used_bytes + block_width_size) free_bytes free_count
         else
           validate_walk m (get_next_block_exp m curr_block) (pred_numeral k)
             used_bytes (free_bytes + block_width_size) (free_count + 1))"
  by (simp add: numeral_eq_Suc)

lemmas prop_eval_simps = tiling_exp_def region_blocks_exp_def region_walk_numeral
  free_list_faithful_def free_list_exp_def validate_heap_exp_def validate_walk_numeral
  validate_free_list.simps get_next_block_exp_def get_prev_free_def get_next_free_def
  hdr_defs mem_simps

lemma region_blocks_evals:
  "region_blocks_exp exp_fresh = [0x1008]"
  "region_blocks_exp (fst exp_full) = [0x1008]"
  "region_blocks_exp exp_lost = [0x1008]"
  by (simp_all add: exp_fresh_eval exp_full_eval exp_lost_eval prop_eval_simps)

text \<open>Claim C1 (tiling), at the failing input. On a zero-filled memory, after
  \<^verbatim>\<open>myinit(0x1000, 4096)\<close> and \<^verbatim>\<open>p = mymalloc(4088)\<close> the one block of the region tiles it and
  the validator accepts the heap. \<^verbatim>\<open>myfree(p)\<close> then takes the 8 bytes after the end of the
  region for the header of a free right neighbour and merges it: the only block of the region
  gets payload size 4096, so with its header it covers 4104 bytes of a region of 4096, the block
  count drops to 0, the blocks no longer tile the region and the validator rejects the heap.\<close>

theorem free_last_block_breaks_tiling:
  "tiling_exp exp_fresh \<and> validate_heap_exp exp_fresh = Some True
   \<and> tiling_exp (fst exp_full) \<and> validate_heap_exp (fst exp_full) = Some True
   \<and> region_blocks_exp exp_lost = [0x1008]
   \<and> get_block_size (heap_exp exp_lost) 0x1008 = 4096
   \<and> segment_size_exp exp_lost = 4096
   \<and> nblocks_exp exp_lost = 0
   \<and> \<not> tiling_exp exp_lost
   \<and> validate_heap_exp exp_lost = Some False"
  by (simp add: region_blocks_evals tiling_exp_def validate_heap_exp_def)
     (simp add: exp_fresh_eval exp_full_eval exp_lost_eval prop_eval_simps)

text \<open>Claim C2 (free-list faithfulness), at the same input. Before \<^verbatim>\<open>myfree(p)\<close> the free
  list is faithful: it is empty, \<^verbatim>\<open>last_free_block\<close> being null since \<^verbatim>\<open>mymalloc(4088)\<close> took
  the only free block. \<^verbatim>\<open>myfree(p)\<close> merges \<open>p\<close> with the neighbour it reads after the end of
  the region: \<open>p\<close> gets that neighbour's null links and is meant to take its place on the free
  list, but the neighbour was on no list, so \<^verbatim>\<open>last_free_block\<close> stays null. After the call
  the block at 0x1008 is free, the free list is empty, the free block is on no list, and a
  request of 16 bytes fails.\<close>

theorem free_last_block_leaves_free_list:
  "free_list_faithful exp_fresh
   \<and> free_list_faithful (fst exp_full)
   \<and> region_blocks_exp exp_lost = [0x1008]
   \<and> check_alloc (heap_exp exp_lost) 0x1008 = 0
   \<and> last_free_block_exp exp_lost = 0
   \<and> free_list_exp exp_lost = []
   \<and> \<not> free_list_faithful exp_lost
   \<and> snd (mymalloc_exp exp_lost 16) = 0"
  by (simp add: region_blocks_evals free_list_faithful_def free_list_exp_def)
     (simp add: exp_fresh_eval exp_full_eval exp_lost_eval prop_eval_simps mymalloc_exp_def
        exp_defs)

lemma exp_g0_eval:
  "exp_g0 = \<lparr>heap_exp = store64 (store64 (store64 (store64 (store64 (store64
     zero_mem 8200 12289) 8208 4104) 12281 64) 4096 16352) 4104 0) 4112 0,
     segment_start_exp = 4096, segment_size_exp = 4096, start_block_exp = 4104, nblocks_exp
     = 1, nused_exp = 0, last_free_block_exp = 4104\<rparr>"
  by (simp add: exp_g0_def exp_eval_simps myinit_exp_def exp_boot_def past_end_mem_def)

lemma exp_g1_eval:
  "exp_g1 = (\<lparr>heap_exp = store64 (store64 (store64 (store64 (store64 (store64
     (store64 (store64 (store64 (store64 zero_mem 8200 12289) 8208 4104) 12281 64) 4096
     16352) 4104 0) 4112 0) 4120 16256) 4128 0) 4136 0) 4096 65, segment_start_exp = 4096,
     segment_size_exp = 4096, start_block_exp = 4104, nblocks_exp = 2, nused_exp = 1,
     last_free_block_exp = 4128\<rparr>, 4104)"
  by (simp add: exp_g1_def exp_g0_eval exp_eval_simps)

lemma exp_g2_eval:
  "exp_g2 = (\<lparr>heap_exp = store64 (store64 (store64 (store64 (store64 (store64
     (store64 (store64 (store64 (store64 (store64 zero_mem 8200 12289) 8208 4104) 12281 64)
     4096 16352) 4104 0) 4112 0) 4120 16256) 4128 0) 4136 0) 4096 65) 4120 16257,
     segment_start_exp = 4096, segment_size_exp = 4096, start_block_exp = 4104, nblocks_exp
     = 2, nused_exp = 2, last_free_block_exp = 0\<rparr>, 4128)"
  by (simp add: exp_g2_def exp_g1_eval exp_eval_simps)

lemma exp_g3_eval:
  "exp_g3 = \<lparr>heap_exp = store64 (store64 (store64 (store64 (store64 (store64
     (store64 (store64 (store64 (store64 (store64 (store64 (store64 (store64 zero_mem 8200
     12289) 8208 4104) 12281 64) 4096 16352) 4104 0) 4112 0) 4120 16256) 4128 0) 4136 0)
     4096 65) 4120 16257) 4096 64) 4104 0) 4112 0, segment_start_exp = 4096,
     segment_size_exp = 4096, start_block_exp = 4104, nblocks_exp = 2, nused_exp = 1,
     last_free_block_exp = 4104\<rparr>"
  by (simp add: exp_g3_def exp_g2_eval exp_g1_eval exp_eval_simps)

lemma exp_g4_eval:
  "exp_g4 = \<lparr>heap_exp = store64 (store64 (store64 (store64 (store64 (store64
     (store64 (store64 (store64 (store64 (store64 (store64 (store64 (store64 (store64
     (store64 (store64 (store64 (store64 zero_mem 8200 12289) 8208 4104) 12281 64) 4096
     16352) 4104 0) 4112 0) 4120 16256) 4128 0) 4136 0) 4096 65) 4120 16257) 4096 64) 4104
     0) 4112 0) 4120 16288) 4128 12289) 4136 4104) 4104 4128) 12297 4128, segment_start_exp
     = 4096, segment_size_exp = 4096, start_block_exp = 4104, nblocks_exp = 1, nused_exp =
     0, last_free_block_exp = 4104\<rparr>"
  by (simp add: exp_g4_def exp_g3_eval exp_g2_eval exp_eval_simps)

lemma exp_g5_eval:
  "exp_g5 = (\<lparr>heap_exp = store64 (store64 (store64 (store64 (store64 (store64
     (store64 (store64 (store64 (store64 (store64 (store64 (store64 (store64 (store64
     (store64 (store64 (store64 (store64 (store64 (store64 zero_mem 8200 12289) 8208 4104)
     12281 64) 4096 16352) 4104 0) 4112 0) 4120 16256) 4128 0) 4136 0) 4096 65) 4120 16257)
     4096 64) 4104 0) 4112 0) 4120 16288) 4128 12289) 4136 4104) 4104 4128) 12297 4128)
     4136 0) 4096 65, segment_start_exp = 4096, segment_size_exp = 4096, start_block_exp =
     4104, nblocks_exp = 1, nused_exp = 1, last_free_block_exp = 4128\<rparr>, 4104)"
  by (simp add: exp_g5_def exp_g4_eval exp_eval_simps)

lemma exp_g6_eval:
  "exp_g6 = (\<lparr>heap_exp = store64 (store64 (store64 (store64 (store64 (store64
     (store64 (store64 (store64 (store64 (store64 (store64 (store64 (store64 (store64
     (store64 (store64 (store64 (store64 (store64 (store64 (store64 (store64 zero_mem 8200
     12289) 8208 4104) 12281 64) 4096 16352) 4104 0) 4112 0) 4120 16256) 4128 0) 4136 0)
     4096 65) 4120 16257) 4096 64) 4104 0) 4112 0) 4120 16288) 4128 12289) 4136 4104) 4104
     4128) 12297 4128) 4136 0) 4096 65) 12297 0) 4120 16289, segment_start_exp = 4096,
     segment_size_exp = 4096, start_block_exp = 4104, nblocks_exp = 1, nused_exp = 2,
     last_free_block_exp = 12289\<rparr>, 4128)"
  by (simp add: exp_g6_def exp_g5_eval exp_eval_simps)


lemma first_fit_loop_exp_fits:
  "req_size \<le> get_block_size m curr_block \<Longrightarrow> check_alloc m curr_block = 0 \<Longrightarrow> 0 < n
   \<Longrightarrow> first_fit_loop_exp m req_size curr_block n = curr_block"
  by (cases n) simp_all

lemma exp_g7_ptr: "snd exp_g7 = 0x3001"
proof -
  let ?m = "heap_exp (fst exp_g6)"
  have sz: "get_block_size ?m 0x3001 = 16" and st: "check_alloc ?m 0x3001 = 0"
    by (simp_all add: exp_g6_eval hdr_defs mem_simps)
  have n: "0 < unat (nblocks_exp (fst exp_g6) - nused_exp (fst exp_g6))"
    by (simp add: exp_g6_eval unat_gt_0)
  have lf: "last_free_block_exp (fst exp_g6) = 0x3001"
    by (simp add: exp_g6_eval)
  have ff: "first_fit_exp (fst exp_g6) 16 = 0x3001"
    unfolding first_fit_exp_def lf by (rule first_fit_loop_exp_fits) (simp_all add: sz st n)
  have r: "round_up_exp 16 = 16"
    by (simp add: exp_defs hdr_defs)
  show ?thesis
    by (simp add: exp_g7_def mymalloc_exp_def r ff Let_def split_def)
qed

text \<open>Claim C9 (alignment), at a failing input. The base \<open>0x1000\<close> is 8-byte aligned and the
  first two pointers returned are congruent to it modulo 8. After \<^verbatim>\<open>myfree(a)\<close> the validator
  accepts the heap. \<^verbatim>\<open>myfree(q)\<close> frees the last block of the region: it reads the three words
  after the region as the header and the links of a free right neighbour and puts \<open>q\<close> on the
  free list between \<open>a\<close> and the address \<open>0x3001\<close> found there; the validator rejects the heap.
  The next two requests are served from \<open>a\<close> and \<open>q\<close>, and the third returns \<open>0x3001\<close>, which is
  not null and not congruent to the base modulo 8.\<close>

theorem free_last_block_unaligned_pointer:
  "congruent8 (snd exp_g1) 0x1000 \<and> congruent8 (snd exp_g2) 0x1000
   \<and> validate_heap_exp exp_g3 = Some True
   \<and> validate_heap_exp exp_g4 = Some False
   \<and> snd exp_g5 = snd exp_g1 \<and> snd exp_g6 = snd exp_g2
   \<and> snd exp_g7 = 0x3001 \<and> snd exp_g7 \<noteq> 0
   \<and> \<not> congruent8 (snd exp_g7) 0x1000"
  by (simp add: exp_g7_ptr congruent8_def)
     (simp add: exp_g1_eval exp_g2_eval exp_g3_eval exp_g4_eval exp_g5_eval exp_g6_eval
        validate_heap_exp_def validate_walk_numeral validate_free_list.simps
        get_next_block_exp_def get_prev_free_def get_next_free_def hdr_defs mem_simps)

end
